theory Spec2Isabelle
  imports Main
begin

section \<open>The type and value model\<close>

text \<open>
  The semantic-analysis core of the Malloy translator (\<open>ast-main.ts\<close> and the
  binary-operator dispatcher appended to it).  Diagnostics are attached to AST elements
  by \<open>element.log(msg)\<close>; an element is identified by its source location, so the log
  is a list of (location, message) pairs in the order of the calls.  A thrown
  \<open>Error(msg)\<close> is the left injection of a sum.
\<close>

type_synonym log = "(nat \<times> string) list"

datatype ExpressionType = Scalar | Aggregate | Analytic | UngroupedAggregate

datatype EvalSpace = Constant | Literal | Input | Output

text \<open>A plan fragment list (\<open>Expr\<close>): strings and the dialect fragments built here.\<close>

datatype Fragment =
    Str string
  | RegexpMatch "Fragment list" "Fragment list"
  | DivFragment "Fragment list" "Fragment list"

type_synonym Expr = "Fragment list"

record FieldTypeDef =
  f_name :: string
  f_as :: "string option"
  f_type :: string
  f_e :: "Expr option"
  f_expressionType :: "ExpressionType option"
  f_code :: "string option"
  f_timeframe :: "string option"
  f_location :: "nat option"

text \<open>
  A turtle definition.  Its pipeline is not inspected by any function modelled here and
  is left out of the record.
\<close>

record TurtleDef =
  t_name :: string
  t_as :: "string option"
  t_location :: "nat option"

record Parameter =
  p_name :: string
  p_type :: string

datatype FieldDef =
    AtomicField FieldTypeDef
  | StructField StructDef
  | TurtleField TurtleDef
and StructDef =
    StructDef (s_name: string) (s_as: "string option") (s_dialect: string)
      (s_fields: "FieldDef list") (s_parameters: "(string \<times> Parameter) list option")

text \<open>\<open>x.as || x.name\<close>: the empty string is falsy in JavaScript.\<close>

definition asOrName :: "string option \<Rightarrow> string \<Rightarrow> string" where
  "asOrName a n = (case a of None \<Rightarrow> n | Some s \<Rightarrow> if s = [] then n else s)"

fun nameOf :: "FieldDef \<Rightarrow> string" where
  "nameOf (AtomicField d) = asOrName (f_as d) (f_name d)"
| "nameOf (StructField s) = asOrName (s_as s) (s_name s)"
| "nameOf (TurtleField t) = asOrName (t_as t) (t_name t)"

text \<open>A name between single quotes, as the messages print it.\<close>

definition quoted :: "string \<Rightarrow> string" where
  "quoted s = [CHR 0x27] @ s @ [CHR 0x27]"

section \<open>AST elements\<close>

text \<open>
  A name in the source text (class \<open>FieldName\<close>) with its location; the elements
  of a list of references are used through their \<open>refString\<close> only and are
  names, too.
\<close>

record FieldName =
  refString :: string
  fn_location :: nat

text \<open>
  A field reference: its path, the dotted text of the path (\<open>refString\<close>) and the
  last name of the path (\<open>outputName\<close>).
\<close>

record FieldReference =
  fr_location :: nat
  fr_path :: "string list"
  fr_refString :: string
  fr_outputName :: string

datatype EditKind = Accept | Except

record FieldListEdit =
  edit :: EditKind
  refs :: "FieldName list"

text \<open>
  A join (class \<open>Join\<close>, from \<open>joins.ts\<close>): its name and the struct that
  \<open>join.structDef()\<close> yields.
\<close>

record Join =
  j_name :: FieldName
  j_location :: nat
  j_structDef :: StructDef

text \<open>A turtle declaration with the definition that \<open>getFieldDef\<close> yields.\<close>

record TurtleDecl =
  td_name :: string
  td_location :: nat
  td_fieldDef :: TurtleDef

record HasParameter =
  hp_name :: string
  hp_parameter :: Parameter

section \<open>Field spaces\<close>

text \<open>
  The classes of \<open>SpaceEntry\<close>.  \<open>JoinSpaceField\<close> extends
  \<open>StructSpaceField\<close>; \<open>QueryFieldStruct\<close> and \<open>QueryFieldAST\<close> extend
  \<open>QueryField\<close>; the parameters extend \<open>SpaceParam\<close>; every other class extends
  \<open>SpaceField\<close> directly.  An \<open>ExpressionFieldFromAst\<close> is represented by the name
  of its declaration and the definition that the declaration evaluates to in the space
  that owns the entry.
\<close>

datatype SpaceEntry =
    ColumnSpaceField FieldTypeDef
  | StructSpaceField StructDef
  | JoinSpaceField Join
  | QueryFieldStruct TurtleDef
  | QueryFieldAST TurtleDecl "string option"
  | ExpressionFieldFromAst string FieldTypeDef
  | RenameSpaceField SpaceEntry string nat
  | ReferenceField FieldReference
  | WildSpaceField string
  | DefinedParameter Parameter
  | AbstractParameter HasParameter

text \<open>
  \<open>FieldMap\<close> and the parameter table of a struct are JavaScript objects used as
  dictionaries.  The lists below hold the properties of such an object in the order of
  their creation: assigning to an existing key keeps the key's position, and
  \<open>delete\<close> removes it.
\<close>

type_synonym FieldMap = "(string \<times> SpaceEntry) list"

text \<open>
  \<open>Object.entries\<close> does not list the properties in the order of creation alone:
  first come the properties whose name is an array index (a decimal numeral without a
  leading zero, below 4294967295), in ascending numeric order, then all others in the
  order of creation.  The value of a digit is its position in \<open>0123456789\<close>.
\<close>

definition digitValue :: "char \<Rightarrow> nat" where
  "digitValue c = length (takeWhile (\<lambda>d. d \<noteq> c) ''0123456789'')"

definition numericValue :: "string \<Rightarrow> int" where
  "numericValue s = foldl (\<lambda>n c. 10 * n + int (digitValue c)) 0 s"

definition isArrayIndex :: "string \<Rightarrow> bool" where
  "isArrayIndex s =
     (s \<noteq> [] \<and> list_all (\<lambda>c. digitValue c < 10) s \<and> (s = ''0'' \<or> hd s \<noteq> CHR ''0'')
      \<and> numericValue s < 4294967295)"

definition ownEntries :: "(string \<times> 'v) list \<Rightarrow> (string \<times> 'v) list" where
  "ownEntries m =
     sort_key (\<lambda>(k, v). numericValue k) (filter (\<lambda>(k, v). isArrayIndex k) m)
       @ filter (\<lambda>(k, v). \<not> isArrayIndex k) m"

text \<open>
  The maps are plain objects, so they inherit the members of \<open>Object.prototype\<close>.
  Assigning to \<open>__proto__\<close> creates no property: it makes the assigned object the
  prototype of the map.  Assigning to any other name creates or replaces a property of
  the map itself.  Reading a name gives the property of that name if the map has one,
  and otherwise the inherited member of that name, which is truthy and is no space
  entry.  (What is read through a prototype that an assignment to \<open>__proto__\<close> has
  replaced is not modelled.)
\<close>

definition inheritedNames :: "string list" where
  "inheritedNames =
     [''constructor'', ''__defineGetter__'', ''__defineSetter__'', ''hasOwnProperty'',
      ''__lookupGetter__'', ''__lookupSetter__'', ''isPrototypeOf'', ''propertyIsEnumerable'',
      ''toString'', ''valueOf'', ''__proto__'', ''toLocaleString'']"

fun assign :: "(string \<times> 'v) list \<Rightarrow> string \<Rightarrow> 'v \<Rightarrow> (string \<times> 'v) list" where
  "assign [] k v = [(k, v)]"
| "assign ((k', v') # m) k v = (if k' = k then (k, v) # m else (k', v') # assign m k v)"

definition map_set :: "(string \<times> 'v) list \<Rightarrow> string \<Rightarrow> 'v \<Rightarrow> (string \<times> 'v) list" where
  "map_set m k v = (if k = ''__proto__'' then m else assign m k v)"

datatype Slot = Undefined | Inherited | Own SpaceEntry

definition map_get :: "FieldMap \<Rightarrow> string \<Rightarrow> Slot" where
  "map_get m k =
     (case map_of m k of
        Some e \<Rightarrow> Own e
      | None \<Rightarrow> if k \<in> set inheritedNames then Inherited else Undefined)"

definition map_delete :: "FieldMap \<Rightarrow> string \<Rightarrow> FieldMap" where
  "map_delete m k = filter (\<lambda>(k', v). k' \<noteq> k) m"

text \<open>\<open>StaticSpace.fromFieldDef\<close>\<close>

fun fromFieldDef :: "FieldDef \<Rightarrow> SpaceEntry" where
  "fromFieldDef (StructField s) = StructSpaceField s"
| "fromFieldDef (TurtleField t) = QueryFieldStruct t"
| "fromFieldDef (AtomicField d) = ColumnSpaceField d"

text \<open>
  The body of the getter \<open>StaticSpace.map\<close> when nothing is memoised yet: one entry
  per field, then one per parameter, in the order of \<open>Object.entries\<close>; a parameter
  named like a field throws, and the map filled so far stays in \<open>memoMap\<close>.
\<close>

fun addFieldEntries :: "FieldMap \<Rightarrow> FieldDef list \<Rightarrow> FieldMap" where
  "addFieldEntries m [] = m"
| "addFieldEntries m (f # fs) = addFieldEntries (map_set m (nameOf f) (fromFieldDef f)) fs"

fun addParamEntries ::
  "string \<Rightarrow> FieldMap \<Rightarrow> (string \<times> Parameter) list \<Rightarrow> (string \<times> FieldMap) + FieldMap" where
  "addParamEntries sn m [] = Inr m"
| "addParamEntries sn m ((paramName, paramDef) # ps) =
     (if map_get m paramName \<noteq> Undefined
      then Inl (''In struct '' @ [CHR 0x27] @ sn @ [CHR 0x27] @ '':  : Field and parameter name conflict ''
                @ [CHR 0x27] @ paramName, m)
      else addParamEntries sn (map_set m paramName (DefinedParameter paramDef)) ps)"

definition buildMap :: "StructDef \<Rightarrow> (string \<times> FieldMap) + FieldMap" where
  "buildMap s =
     (let m = addFieldEntries [] (s_fields s) in
      case s_parameters s of
        None \<Rightarrow> Inr m
      | Some ps \<Rightarrow> addParamEntries (asOrName (s_as s) (s_name s)) m (ownEntries ps))"

text \<open>
  \<open>DynamicSpace\<close> (which extends \<open>StaticSpace\<close>).  Completion callbacks are
  identified by numbers; \<open>ran\<close> is the trace of the callbacks run so far.
\<close>

record DynamicSpace =
  fromStruct :: StructDef
  memoMap :: "FieldMap option"
  final :: "StructDef option"
  completions :: "nat list"
  complete :: bool
  ran :: "nat list"

text \<open>The constructor, from a struct (\<open>cloneDeep\<close> copies the value).\<close>

definition new_DynamicSpace :: "StructDef \<Rightarrow> DynamicSpace" where
  "new_DynamicSpace extending =
     \<lparr> fromStruct = extending, memoMap = None, final = None,
       completions = [], complete = False, ran = [] \<rparr>"

text \<open>
  The getter \<open>map\<close>: memoises the map on first use.  When it throws, the space is
  left with the map as far as it was filled.
\<close>

definition getMap ::
  "'a DynamicSpace_scheme \<Rightarrow> (string \<times> 'a DynamicSpace_scheme) + (FieldMap \<times> 'a DynamicSpace_scheme)" where
  "getMap sp =
     (case memoMap sp of
        Some m \<Rightarrow> Inr (m, sp)
      | None \<Rightarrow>
          (case buildMap (fromStruct sp) of
             Inl (err, m) \<Rightarrow> Inl (err, sp\<lparr> memoMap := Some m \<rparr>)
           | Inr m \<Rightarrow> Inr (m, sp\<lparr> memoMap := Some m \<rparr>)))"

definition dropEntries :: "'a DynamicSpace_scheme \<Rightarrow> 'a DynamicSpace_scheme" where
  "dropEntries sp = sp\<lparr> memoMap := Some [] \<rparr>"

definition dropEntry :: "'a DynamicSpace_scheme \<Rightarrow> string \<Rightarrow> string + 'a DynamicSpace_scheme" where
  "dropEntry sp name =
     (case getMap sp of
        Inl (err, sp') \<Rightarrow> Inl err
      | Inr (m, sp') \<Rightarrow> Inr (sp'\<lparr> memoMap := Some (map_delete m name) \<rparr>))"

definition entry :: "'a DynamicSpace_scheme \<Rightarrow> string \<Rightarrow> string + (Slot \<times> 'a DynamicSpace_scheme)" where
  "entry sp name =
     (case getMap sp of
        Inl (err, sp') \<Rightarrow> Inl err
      | Inr (m, sp') \<Rightarrow> Inr (map_get m name, sp'))"

definition entries ::
  "'a DynamicSpace_scheme \<Rightarrow> (string \<times> 'a DynamicSpace_scheme) + (FieldMap \<times> 'a DynamicSpace_scheme)" where
  "entries sp =
     (case getMap sp of
        Inl thrown \<Rightarrow> Inl thrown
      | Inr (m, sp') \<Rightarrow> Inr (ownEntries m, sp'))"

text \<open>\<open>StaticSpace.setEntry\<close> and its override in \<open>DynamicSpace\<close>.\<close>

definition StaticSpace_setEntry ::
  "'a DynamicSpace_scheme \<Rightarrow> string \<Rightarrow> SpaceEntry \<Rightarrow> string + 'a DynamicSpace_scheme" where
  "StaticSpace_setEntry sp name v =
     (case getMap sp of
        Inl (err, sp') \<Rightarrow> Inl err
      | Inr (m, sp') \<Rightarrow> Inr (sp'\<lparr> memoMap := Some (map_set m name v) \<rparr>))"

definition setEntry ::
  "'a DynamicSpace_scheme \<Rightarrow> string \<Rightarrow> SpaceEntry \<Rightarrow> string + 'a DynamicSpace_scheme" where
  "setEntry sp name v =
     (if final sp \<noteq> None then Inl ''Space already final''
      else StaticSpace_setEntry sp name v)"

text \<open>\<open>DynamicSpace.filteredFrom\<close>; the loop over \<open>oldMap\<close> is \<open>filterEntries\<close>.\<close>

fun filterEntries ::
  "FieldListEdit \<Rightarrow> FieldMap \<Rightarrow> DynamicSpace \<Rightarrow> string + DynamicSpace" where
  "filterEntries chs [] edited = Inr edited"
| "filterEntries chs ((symbol, v) # oldMap) edited =
     (let names = refs chs;
          included = (find (\<lambda>f. refString f = symbol) names \<noteq> None);
          accepting = (edit chs = Accept)
      in if included = accepting
         then (case setEntry edited symbol v of
                 Inl err \<Rightarrow> Inl err
               | Inr edited' \<Rightarrow> filterEntries chs oldMap edited')
         else filterEntries chs oldMap edited)"

definition filteredFrom :: "StructDef \<Rightarrow> FieldListEdit option \<Rightarrow> string + DynamicSpace" where
  "filteredFrom frm chs =
     (let edited = new_DynamicSpace frm in
      case chs of
        None \<Rightarrow> Inr edited
      | Some ch \<Rightarrow>
          (case entries edited of
             Inl (err, edited1) \<Rightarrow> Inl err
           | Inr (oldMap, edited1) \<Rightarrow> filterEntries ch oldMap (dropEntries edited1)))"

text \<open>\<open>newEntry\<close>, \<open>addFieldDef\<close> and the \<open>RenameField\<close> branch of \<open>addField\<close>.\<close>

fun isStructSpaceField :: "SpaceEntry \<Rightarrow> bool" where
  "isStructSpaceField (StructSpaceField s) = True"
| "isStructSpaceField (JoinSpaceField j) = True"
| "isStructSpaceField e = False"

fun isQueryField :: "SpaceEntry \<Rightarrow> bool" where
  "isQueryField (QueryFieldStruct t) = True"
| "isQueryField (QueryFieldAST d r) = True"
| "isQueryField e = False"

fun isSpaceParam :: "SpaceEntry \<Rightarrow> bool" where
  "isSpaceParam (DefinedParameter p) = True"
| "isSpaceParam (AbstractParameter h) = True"
| "isSpaceParam e = False"

definition isSpaceField :: "SpaceEntry \<Rightarrow> bool" where
  "isSpaceField e = (\<not> isSpaceParam e)"

definition newEntry ::
  "'a DynamicSpace_scheme \<Rightarrow> string \<Rightarrow> nat \<Rightarrow> SpaceEntry \<Rightarrow> string + (log \<times> 'a DynamicSpace_scheme)" where
  "newEntry sp name astEl e =
     (case entry sp name of
        Inl err \<Rightarrow> Inl err
      | Inr (found, sp1) \<Rightarrow>
          (if found \<noteq> Undefined then Inr ([(astEl, ''Cannot redefine '' @ quoted name)], sp1)
           else (case setEntry sp1 name e of
                   Inl err \<Rightarrow> Inl err
                 | Inr sp2 \<Rightarrow> Inr ([], sp2))))"

definition addFieldDef :: "'a DynamicSpace_scheme \<Rightarrow> FieldDef \<Rightarrow> string + 'a DynamicSpace_scheme" where
  "addFieldDef sp fd = setEntry sp (nameOf fd) (fromFieldDef fd)"

record RenameField =
  newName :: string
  oldName :: FieldName
  rf_location :: nat

definition addField_RenameField ::
  "'a DynamicSpace_scheme \<Rightarrow> RenameField \<Rightarrow> string + (log \<times> 'a DynamicSpace_scheme)" where
  "addField_RenameField sp def =
     (if refString (oldName def) = newName def
      then Inr ([(rf_location def, ''Can'' @ [CHR 0x27] @ ''t rename field to itself'')], sp)
      else (case entry sp (refString (oldName def)) of
              Inl err \<Rightarrow> Inl err
            | Inr (Undefined, sp1) \<Rightarrow>
                Inr ([(rf_location def, ''Can'' @ [CHR 0x27] @ ''t rename ''
                        @ quoted (refString (oldName def)) @ '', no such field'')], sp1)
            | Inr (Inherited, sp1) \<Rightarrow>
                Inr ([(rf_location def,
                       quoted (refString (oldName def)) @ '' cannot be renamed'')], sp1)
            | Inr (Own found, sp1) \<Rightarrow>
                (if isSpaceField found
                 then (case setEntry sp1 (newName def)
                              (RenameSpaceField found (newName def) (rf_location def)) of
                         Inl err \<Rightarrow> Inl err
                       | Inr sp2 \<Rightarrow>
                           (case dropEntry sp2 (refString (oldName def)) of
                              Inl err \<Rightarrow> Inl err
                            | Inr sp3 \<Rightarrow> Inr ([], sp3)))
                 else Inr ([(rf_location def,
                             quoted (refString (oldName def)) @ '' cannot be renamed'')], sp1))))"

text \<open>
  \<open>fieldDef()\<close> of each entry class; \<open>None\<close> is \<open>undefined\<close> (the default of
  \<open>SpaceField\<close>, kept by \<open>ReferenceField\<close> and \<open>WildSpaceField\<close>).  A
  \<open>RenameSpaceField\<close> spreads the definition of the renamed field and overwrites
  \<open>as\<close> and \<open>location\<close> (structs carry no location here).
\<close>

fun withAs :: "FieldDef \<Rightarrow> string \<Rightarrow> nat \<Rightarrow> FieldDef" where
  "withAs (AtomicField d) n loc = AtomicField (d\<lparr> f_as := Some n, f_location := Some loc \<rparr>)"
| "withAs (StructField s) n loc =
     StructField (StructDef (s_name s) (Some n) (s_dialect s) (s_fields s) (s_parameters s))"
| "withAs (TurtleField t) n loc = TurtleField (t\<lparr> t_as := Some n, t_location := Some loc \<rparr>)"

fun fieldDef :: "SpaceEntry \<Rightarrow> FieldDef option" where
  "fieldDef (ColumnSpaceField d) = Some (AtomicField d)"
| "fieldDef (StructSpaceField s) = Some (StructField s)"
| "fieldDef (JoinSpaceField j) = Some (StructField (j_structDef j))"
| "fieldDef (QueryFieldStruct t) = Some (TurtleField t)"
| "fieldDef (QueryFieldAST decl renameAs) =
     Some (TurtleField (case renameAs of
                          None \<Rightarrow> td_fieldDef decl
                        | Some r \<Rightarrow> if r = [] then td_fieldDef decl
                                    else (td_fieldDef decl)\<lparr> t_as := Some r \<rparr>))"
| "fieldDef (ExpressionFieldFromAst n d) = Some (AtomicField d)"
| "fieldDef (RenameSpaceField other n loc) =
     (case fieldDef other of None \<Rightarrow> None | Some raw \<Rightarrow> Some (withAs raw n loc))"
| "fieldDef (ReferenceField r) = None"
| "fieldDef (WildSpaceField w) = None"
| "fieldDef (DefinedParameter p) = None"
| "fieldDef (AbstractParameter h) = None"

fun parameter :: "SpaceEntry \<Rightarrow> Parameter option" where
  "parameter (DefinedParameter p) = Some p"
| "parameter (AbstractParameter h) = Some (hp_parameter h)"
| "parameter e = None"

text \<open>
  Modelled from the spec: \<open>ErrorFactory\<close> (file \<open>error-factory.ts\<close>) is not part of
  the sources at hand; the spec describes it as providing a sentinel \<open>structDef\<close> and the
  test \<open>isErrorStructDef(s)\<close> that recognises it.
\<close>

definition ErrorFactory_structDef :: StructDef where
  "ErrorFactory_structDef = StructDef ''~malformed~'' None ''~malformed~'' [] None"

definition isErrorStructDef :: "StructDef \<Rightarrow> bool" where
  "isErrorStructDef s = (s_name s = s_name ErrorFactory_structDef)"

text \<open>
  \<open>DynamicSpace.structDef\<close>.  The first loop sorts the entries into \<open>fields\<close>,
  \<open>joins\<close> and \<open>turtles\<close> and stores the parameters; \<open>parameters\<close> is the
  parameter table of \<open>fromStruct\<close> itself when there is one, a fresh object otherwise.
\<close>

record Classified =
  c_fields :: FieldMap
  c_joins :: FieldMap
  c_turtles :: FieldMap
  c_parameters :: "(string \<times> Parameter) list"

fun classify :: "FieldMap \<Rightarrow> Classified \<Rightarrow> Classified" where
  "classify [] c = c"
| "classify ((name, spaceEntry) # es) c =
     classify es
       (if isStructSpaceField spaceEntry then c\<lparr> c_joins := c_joins c @ [(name, spaceEntry)] \<rparr>
        else if isQueryField spaceEntry then c\<lparr> c_turtles := c_turtles c @ [(name, spaceEntry)] \<rparr>
        else if isSpaceField spaceEntry then c\<lparr> c_fields := c_fields c @ [(name, spaceEntry)] \<rparr>
        else (case parameter spaceEntry of
                Some p \<Rightarrow> c\<lparr> c_parameters := map_set (c_parameters c) name p \<rparr>
              | None \<Rightarrow> c))"

text \<open>
  The second loop pushes the definitions onto \<open>final.fields\<close>; a join whose struct is
  the error sentinel is skipped, a join that is pushed is remembered for the fix-up
  together with the position of its struct in \<open>final.fields\<close> (the fix-up updates that
  object in place).  A field without a definition throws; what was pushed so far stays
  in \<open>final\<close>.
\<close>

fun emitFields ::
  "FieldMap \<Rightarrow> FieldDef list \<Rightarrow> (Join \<times> nat) list \<Rightarrow>
     (string \<times> FieldDef list) + (FieldDef list \<times> (Join \<times> nat) list)" where
  "emitFields [] out fixups = Inr (out, fixups)"
| "emitFields ((fieldName, JoinSpaceField j) # rest) out fixups =
     (let joinStruct = j_structDef j in
      if \<not> isErrorStructDef joinStruct
      then emitFields rest (out @ [StructField joinStruct]) (fixups @ [(j, length out)])
      else emitFields rest out fixups)"
| "emitFields ((fieldName, field) # rest) out fixups =
     (case fieldDef field of
        Some fd \<Rightarrow> emitFields rest (out @ [fd]) fixups
      | None \<Rightarrow> Inl (quoted fieldName @ '' doesn'' @ [CHR 0x27] @ ''t have a FieldDef'', out))"

text \<open>
  The third loop, \<open>join.fixupJoinOn(this, missingOn)\<close>.  The class \<open>Join\<close> is not
  part of the sources at hand, so what the fix-up makes of the struct is the parameter
  \<open>fixupJoinOn\<close>; it sees the space through the entry map that the space holds.
\<close>

type_synonym fixup = "Join \<Rightarrow> FieldMap \<Rightarrow> StructDef \<Rightarrow> StructDef"

definition heldMap :: "'a DynamicSpace_scheme \<Rightarrow> FieldMap" where
  "heldMap sp = (case memoMap sp of None \<Rightarrow> [] | Some m \<Rightarrow> m)"

fun fixupField :: "fixup \<Rightarrow> FieldMap \<Rightarrow> Join \<Rightarrow> FieldDef \<Rightarrow> FieldDef" where
  "fixupField fixupJoinOn m j (StructField s) = StructField (fixupJoinOn j m s)"
| "fixupField fixupJoinOn m j fd = fd"

fun fixupJoins :: "fixup \<Rightarrow> FieldMap \<Rightarrow> (Join \<times> nat) list \<Rightarrow> FieldDef list \<Rightarrow> FieldDef list" where
  "fixupJoins fixupJoinOn m [] out = out"
| "fixupJoins fixupJoinOn m ((j, i) # rest) out =
     fixupJoins fixupJoinOn m rest
       (if i < length out then out[i := fixupField fixupJoinOn m j (out ! i)] else out)"

definition isComplete :: "'a DynamicSpace_scheme \<Rightarrow> 'a DynamicSpace_scheme" where
  "isComplete sp = sp\<lparr> complete := True, ran := ran sp @ completions sp, completions := [] \<rparr>"

definition whenComplete :: "'a DynamicSpace_scheme \<Rightarrow> nat \<Rightarrow> 'a DynamicSpace_scheme" where
  "whenComplete sp finalizeStep =
     (if complete sp then sp\<lparr> ran := ran sp @ [finalizeStep] \<rparr>
      else sp\<lparr> completions := completions sp @ [finalizeStep] \<rparr>)"

definition withFields :: "StructDef \<Rightarrow> FieldDef list \<Rightarrow> StructDef" where
  "withFields s fs = StructDef (s_name s) (s_as s) (s_dialect s) fs (s_parameters s)"

definition withParameters :: "StructDef \<Rightarrow> (string \<times> Parameter) list option \<Rightarrow> StructDef" where
  "withParameters s ps = StructDef (s_name s) (s_as s) (s_dialect s) (s_fields s) ps"

definition structDef ::
  "fixup \<Rightarrow> 'a DynamicSpace_scheme \<Rightarrow> (string + StructDef) \<times> 'a DynamicSpace_scheme" where
  "structDef fixupJoinOn sp =
     (case final sp of
        Some f \<Rightarrow> (Inr f, isComplete sp)
      | None \<Rightarrow>
          (let final0 = withFields (fromStruct sp) [];
               sp1 = sp\<lparr> final := Some final0 \<rparr>
           in case entries sp1 of
                Inl (err, sp2) \<Rightarrow> (Inl err, sp2)
              | Inr (es, sp2) \<Rightarrow>
                  (let shared = (s_parameters (fromStruct sp) \<noteq> None);
                       c = classify es \<lparr> c_fields = [], c_joins = [], c_turtles = [],
                                       c_parameters = (case s_parameters (fromStruct sp) of
                                                         None \<Rightarrow> [] | Some ps \<Rightarrow> ps) \<rparr>;
                       parameters = c_parameters c;
                       sp3 = (if shared
                              then sp2\<lparr> fromStruct := withParameters (fromStruct sp2) (Some parameters) \<rparr>
                              else sp2);
                       final1 = (if shared then withParameters final0 (Some parameters) else final0);
                       reorderFields = c_fields c @ c_joins c @ c_turtles c
                   in case emitFields reorderFields [] [] of
                        Inl (err, pushed) \<Rightarrow>
                          (Inl err, sp3\<lparr> final := Some (withFields final1 pushed) \<rparr>)
                      | Inr (pushed, fixups) \<Rightarrow>
                          (let final2 = (if parameters \<noteq> []
                                         then withParameters final1 (Some parameters) else final1);
                               final3 = withFields final2
                                          (fixupJoins fixupJoinOn (heldMap sp2) fixups pushed)
                           in (Inr final3, isComplete (sp3\<lparr> final := Some final3 \<rparr>))))))"

text \<open>
  Notions used to state the order of \<open>final.fields\<close>: the entry map as a value, what
  one entry contributes to the list, the three groups of the first loop, and the kind
  of a field definition (0 atomic, 1 struct, 2 turtle).
\<close>

definition theMap :: "'a DynamicSpace_scheme \<Rightarrow> string + FieldMap" where
  "theMap sp = (case getMap sp of Inl (err, sp') \<Rightarrow> Inl err | Inr (m, sp') \<Rightarrow> Inr m)"

fun emitOne :: "string \<times> SpaceEntry \<Rightarrow> FieldDef list" where
  "emitOne (n, JoinSpaceField j) =
     (if isErrorStructDef (j_structDef j) then [] else [StructField (j_structDef j)])"
| "emitOne (n, e) = (case fieldDef e of Some fd \<Rightarrow> [fd] | None \<Rightarrow> [])"

definition emitAll :: "FieldMap \<Rightarrow> FieldDef list" where
  "emitAll es = concat (map emitOne es)"

fun joinFixups :: "nat \<Rightarrow> FieldMap \<Rightarrow> (Join \<times> nat) list" where
  "joinFixups i [] = []"
| "joinFixups i ((n, JoinSpaceField j) # rest) =
     (if isErrorStructDef (j_structDef j) then joinFixups i rest
      else (j, i) # joinFixups (Suc i) rest)"
| "joinFixups i ((n, e) # rest) = joinFixups (i + length (emitOne (n, e))) rest"

definition plainEntries :: "FieldMap \<Rightarrow> FieldMap" where
  "plainEntries m = filter (\<lambda>(n, e). isSpaceField e \<and> \<not> isStructSpaceField e \<and> \<not> isQueryField e) m"

definition joinEntries :: "FieldMap \<Rightarrow> FieldMap" where
  "joinEntries m = filter (\<lambda>(n, e). isStructSpaceField e) m"

definition turtleEntries :: "FieldMap \<Rightarrow> FieldMap" where
  "turtleEntries m = filter (\<lambda>(n, e). \<not> isStructSpaceField e \<and> isQueryField e) m"

fun fieldKind :: "FieldDef \<Rightarrow> nat" where
  "fieldKind (AtomicField d) = 0"
| "fieldKind (StructField s) = 1"
| "fieldKind (TurtleField t) = 2"

text \<open>The entry list of a space, and of the space a factory returned, if it did not throw.\<close>

definition entriesOf :: "DynamicSpace \<Rightarrow> FieldMap option" where
  "entriesOf sp = (case entries sp of Inl thrown \<Rightarrow> None | Inr (m, sp') \<Rightarrow> Some m)"

definition entriesOfResult :: "string + DynamicSpace \<Rightarrow> FieldMap option" where
  "entriesOfResult r = (case r of Inl err \<Rightarrow> None | Inr sp \<Rightarrow> entriesOf sp)"

section \<open>Expression values\<close>

record ExprValue =
  dataType :: string
  expressionType :: ExpressionType
  evalSpace :: EvalSpace
  val :: Expr
  morphic :: "(string \<times> Expr) list option"
  timeframe :: "string option"
  rawType :: "string option"

text \<open>
  Modelled from the spec: \<open>maxExpressionType\<close>, \<open>maxOfExpressionTypes\<close> and
  \<open>mergeEvalSpaces\<close> live in \<open>model/malloy_types\<close>, which is not part of the
  sources at hand.  The spec: mixing scalar with aggregate gives aggregate, aggregate
  with analytic gives analytic, any with ungrouped_aggregate gives ungrouped_aggregate;
  eval spaces merge by the maximum of constant, literal, input, output.
\<close>

fun rankOf :: "ExpressionType \<Rightarrow> nat" where
  "rankOf Scalar = 0"
| "rankOf Aggregate = 1"
| "rankOf Analytic = 2"
| "rankOf UngroupedAggregate = 3"

definition maxExpressionType :: "ExpressionType \<Rightarrow> ExpressionType \<Rightarrow> ExpressionType" where
  "maxExpressionType e1 e2 = (if rankOf e1 < rankOf e2 then e2 else e1)"

definition maxOfExpressionTypes :: "ExpressionType list \<Rightarrow> ExpressionType" where
  "maxOfExpressionTypes types = foldl maxExpressionType Scalar types"

fun spaceRank :: "EvalSpace \<Rightarrow> nat" where
  "spaceRank Constant = 0"
| "spaceRank Literal = 1"
| "spaceRank Input = 2"
| "spaceRank Output = 3"

definition mergeEvalSpace2 :: "EvalSpace \<Rightarrow> EvalSpace \<Rightarrow> EvalSpace" where
  "mergeEvalSpace2 a b = (if spaceRank a < spaceRank b then b else a)"

definition mergeEvalSpaces :: "EvalSpace list \<Rightarrow> EvalSpace" where
  "mergeEvalSpaces es = foldl mergeEvalSpace2 Constant es"

text \<open>
  Modelled from the spec: \<open>expressionIsAggregate\<close> and \<open>expressionIsCalculation\<close>
  (also in \<open>model/malloy_types\<close>).  The calculation kinds are the kinds that dominate
  scalar; the aggregate kinds are aggregate and ungrouped_aggregate.  An absent
  expression type is neither.
\<close>

fun expressionIsAggregate :: "ExpressionType option \<Rightarrow> bool" where
  "expressionIsAggregate (Some Aggregate) = True"
| "expressionIsAggregate (Some UngroupedAggregate) = True"
| "expressionIsAggregate e = False"

fun expressionIsCalculation :: "ExpressionType option \<Rightarrow> bool" where
  "expressionIsCalculation None = False"
| "expressionIsCalculation (Some Scalar) = False"
| "expressionIsCalculation (Some e) = True"

text \<open>
  Modelled from the spec: the time types are date and timestamp
  (\<open>isTimeFieldType\<close>); a granular result is a value with a timeframe attached
  (\<open>isGranularResult\<close>); \<open>errorFor\<close> constructs an error-typed value;
  \<open>isEquality\<close> and \<open>isComparison\<close> recognise the operators of the two classes.
\<close>

definition isTimeFieldType :: "string \<Rightarrow> bool" where
  "isTimeFieldType t = (t = ''date'' \<or> t = ''timestamp'')"


definition errorFor :: "string \<Rightarrow> ExprValue" where
  "errorFor reason =
     \<lparr> dataType = ''error'', expressionType = Scalar, evalSpace = Constant,
       val = [Str (''_ERROR_'' @ reason)], morphic = None, timeframe = None, rawType = None \<rparr>"

definition isEquality :: "string \<Rightarrow> bool" where
  "isEquality op = (op \<in> set [''='', ''!='', ''~'', ''!~''])"

definition isComparison :: "string \<Rightarrow> bool" where
  "isComparison op = (op \<in> set [''<'', ''<='', ''>'', ''>=''])"

text \<open>
  A field of a query segment (\<open>QueryFieldDef\<close>): a reference by name (a string), a
  filtered and aliased name, a field definition with its expression, or a turtle.
\<close>

record FilteredAliasedName =
  fa_name :: string
  fa_as :: "string option"

datatype QueryFieldDef =
    QRef string
  | QFilteredAlias FilteredAliasedName
  | QField FieldTypeDef
  | QTurtle TurtleDef

text \<open>
  Helpers of other files of the repository that only shape plan fragments and texts, or
  that the spec leaves open: they are parameters of the model, collected in one record.
  \<open>compressExpr\<close> (\<open>ast-utils\<close>), \<open>compose\<close> and \<open>nullsafeNot\<close>
  (\<open>expressions/utils\<close>), \<open>FT.inspect\<close>, \<open>isAtomicFieldType\<close>, and
  \<open>mergeFields\<close> (\<open>field-utils\<close>) at the two types it is used at.
\<close>

record Helpers =
  compressExpr :: "Expr \<Rightarrow> Expr"
  compose :: "Expr \<Rightarrow> string \<Rightarrow> Expr \<Rightarrow> Expr"
  nullsafeNot :: "Expr \<Rightarrow> string \<Rightarrow> Expr"
  inspect :: "ExprValue \<Rightarrow> string"
  isAtomicFieldType :: "string \<Rightarrow> bool"
  mergeQueryFields :: "QueryFieldDef list option \<Rightarrow> QueryFieldDef list \<Rightarrow> QueryFieldDef list"
  mergeFieldDefs :: "FieldDef list option \<Rightarrow> FieldDef list \<Rightarrow> FieldDef list"

section \<open>Evaluating expressions in a field space\<close>

text \<open>
  What an expression can see of a found entry is its \<open>type()\<close>.
\<close>

record FieldType =
  ft_type :: string
  ft_expressionType :: "ExpressionType option"

record LookupResult =
  lr_error :: "string option"
  lr_found :: "FieldType option"

text \<open>
  The node classes of expressions are in other files.  \<open>getExpression(fs)\<close> of a node
  is code that may look names up in the field space, log, throw, and in the end return
  a value: a tree of these four actions, where a lookup continues with the result that
  the field space gives.
\<close>

datatype 'a Eval =
    Return 'a
  | Throw string
  | Log nat string "'a Eval"
  | Lookup "string list" "LookupResult \<Rightarrow> 'a Eval"

record ExpressionDef =
  e_location :: nat
  e_eval :: "ExprValue Eval"

record FieldDeclaration =
  fd_location :: nat
  expr :: ExpressionDef
  defineName :: string
  exprSrc :: "string option"

text \<open>
  A field space, as far as expressions use it: a \<open>DefSpace\<close> around another space,
  with its flag \<open>foundCircle\<close>, or any other space, given by its \<open>lookup\<close>.
\<close>

datatype FieldSpace =
    Space "string list \<Rightarrow> LookupResult"
  | DefSpace FieldSpace FieldDeclaration bool



definition new_DefSpace :: "FieldSpace \<Rightarrow> FieldDeclaration \<Rightarrow> FieldSpace" where
  "new_DefSpace realFS circular = DefSpace realFS circular False"

definition circularMessage :: "string \<Rightarrow> string" where
  "circularMessage n = ''Circular reference to '' @ quoted n @ '' in definition''"

fun lookup :: "FieldSpace \<Rightarrow> string list \<Rightarrow> LookupResult \<times> FieldSpace" where
  "lookup (Space f) symbol = (f symbol, Space f)"
| "lookup (DefSpace realFS circular found) symbol =
     (if symbol \<noteq> [] \<and> hd symbol = defineName circular
      then (\<lparr> lr_error = Some (circularMessage (defineName circular)), lr_found = None \<rparr>,
            DefSpace realFS circular True)
      else (case lookup realFS symbol of
              (r, realFS') \<Rightarrow> (r, DefSpace realFS' circular found)))"

type_synonym 'a result = "(string + 'a) \<times> log \<times> FieldSpace"

primrec run :: "'a Eval \<Rightarrow> FieldSpace \<Rightarrow> 'a result" where
  "run (Return v) = (\<lambda>fs. (Inr v, [], fs))"
| "run (Throw message) = (\<lambda>fs. (Inl message, [], fs))"
| "run (Log at message k) = (\<lambda>fs. case run k fs of (r, lg, fs') \<Rightarrow> (r, (at, message) # lg, fs'))"
| "run (Lookup symbol k) = (\<lambda>fs. case lookup fs symbol of (res, fs1) \<Rightarrow> run (k res) fs1)"

definition getExpression :: "FieldSpace \<Rightarrow> ExpressionDef \<Rightarrow> ExprValue result" where
  "getExpression fs e = run (e_eval e) fs"

text \<open>
  Sequencing: when the first computation throws, the rest is skipped; the logs are
  concatenated and the field space is passed on.
\<close>

definition andThen :: "'a result \<Rightarrow> ('a \<Rightarrow> FieldSpace \<Rightarrow> 'b result) \<Rightarrow> 'b result" where
  "andThen r k =
     (case r of
        (Inl err, lg, fs) \<Rightarrow> (Inl err, lg, fs)
      | (Inr v, lg, fs) \<Rightarrow> (case k v fs of (r', lg', fs') \<Rightarrow> (r', lg @ lg', fs')))"

section \<open>The binary-operator dispatcher\<close>

definition unsupportError ::
  "ExpressionDef \<Rightarrow> ExprValue \<Rightarrow> ExpressionDef \<Rightarrow> ExprValue \<Rightarrow> (ExprValue \<times> log) option" where
  "unsupportError l lhs r rhs =
     (let ret = \<lparr> dataType = dataType lhs,
                  expressionType = maxExpressionType (expressionType lhs) (expressionType rhs),
                  evalSpace = mergeEvalSpaces [evalSpace lhs, evalSpace rhs],
                  val = [Str (quoted ''unsupported operation'')],
                  morphic = None, timeframe = None, rawType = None \<rparr>
      in if dataType lhs = ''unsupported''
         then Some (ret\<lparr> dataType := dataType rhs \<rparr>,
                    [(e_location l, ''Unsupported type not allowed in expression'')])
         else if dataType rhs = ''unsupported''
         then Some (ret, [(e_location r, ''Unsupported type not allowed in expression'')])
         else None)"

definition errorCascade :: "string \<Rightarrow> ExprValue list \<Rightarrow> ExprValue option" where
  "errorCascade dt es =
     (if list_ex (\<lambda>e. dataType e = ''error'') es
      then Some \<lparr> dataType = dt,
                  expressionType = maxOfExpressionTypes (map expressionType es),
                  evalSpace = mergeEvalSpaces (map evalSpace es),
                  val = [Str (quoted ''cascading error'')],
                  morphic = None, timeframe = None, rawType = None \<rparr>
      else None)"

definition willMorphTo :: "ExprValue \<Rightarrow> string \<Rightarrow> Expr option" where
  "willMorphTo ev t =
     (if dataType ev = t then Some (val ev)
      else (case morphic ev of None \<Rightarrow> None | Some m \<Rightarrow> map_of m t))"

definition timeCompare ::
  "Helpers \<Rightarrow> ExpressionDef \<Rightarrow> ExprValue \<Rightarrow> string \<Rightarrow> ExprValue \<Rightarrow> Expr option \<times> log" where
  "timeCompare H left lhs op rhs =
     (let leftIsTime = isTimeFieldType (dataType lhs);
          rightIsTime = isTimeFieldType (dataType rhs);
          composed =
            (if leftIsTime \<and> rightIsTime
             then (if dataType lhs \<noteq> dataType rhs
                   then (case (willMorphTo lhs ''timestamp'', willMorphTo rhs ''timestamp'') of
                           (Some lval, Some rval) \<Rightarrow> Some (compose H lval op rval)
                         | other \<Rightarrow> None)
                   else Some (compose H (val lhs) op (val rhs)))
             else None)
      in case composed of
           Some v \<Rightarrow> (Some v, [])
         | None \<Rightarrow>
             (if (leftIsTime \<or> rightIsTime) \<and> dataType lhs \<noteq> ''null'' \<and> dataType rhs \<noteq> ''null''
              then (Some [Str ''false''],
                    [(e_location left,
                      ''Cannot compare a '' @ dataType lhs @ '' to a '' @ dataType rhs)])
              else (None, [])))"

definition regexEqual :: "ExprValue \<Rightarrow> ExprValue \<Rightarrow> Expr option" where
  "regexEqual left right =
     (if dataType left = ''string''
      then (if dataType right = ''regular expression''
            then Some [RegexpMatch (val left) (val right)] else None)
      else if dataType right = ''string''
      then (if dataType left = ''regular expression''
            then Some [RegexpMatch (val right) (val left)] else None)
      else None)"

definition nullCompare :: "ExprValue \<Rightarrow> string \<Rightarrow> ExprValue \<Rightarrow> Expr option" where
  "nullCompare left op right =
     (let not = (op = ''!='' \<or> op = ''!~'') in
      if dataType left = ''null'' \<or> dataType right = ''null''
      then (let maybeNot = (if not then '' NOT'' else '''') in
            if dataType left \<noteq> ''null'' then Some (val left @ [Str ('' IS'' @ maybeNot @ '' NULL'')])
            else if dataType right \<noteq> ''null'' then Some (val right @ [Str (''IS'' @ maybeNot @ '' NULL'')])
            else Some [Str (if not then ''false'' else ''true'')])
      else None)"

text \<open>
  The bodies of \<open>equality\<close>, \<open>compare\<close> and \<open>numeric\<close> after both operands are
  evaluated; \<open>TypeMismatch\<close> is thrown as any error is.
\<close>

definition equalityOf ::
  "Helpers \<Rightarrow> ExpressionDef \<Rightarrow> ExprValue \<Rightarrow> string \<Rightarrow> ExpressionDef \<Rightarrow> ExprValue \<Rightarrow>
     (string + ExprValue) \<times> log" where
  "equalityOf H left lhs op right rhs =
     (case errorCascade ''boolean'' [lhs, rhs] of
        Some err \<Rightarrow> (Inr err, [])
      | None \<Rightarrow>
          (let checkUnsupport = (dataType lhs = ''unsupported'' \<or> dataType rhs = ''unsupported'');
               oneNull = (dataType lhs = ''null'' \<or> dataType rhs = ''null'');
               rawMatch = (rawType lhs \<noteq> None \<and> rawType lhs \<noteq> Some [] \<and> rawType lhs = rawType rhs);
               noGo = (if checkUnsupport \<and> \<not> (oneNull \<or> rawMatch)
                       then unsupportError left lhs right rhs else None)
           in case noGo of
                Some (v, lg) \<Rightarrow> (Inr (v\<lparr> dataType := ''boolean'' \<rparr>), lg)
              | None \<Rightarrow>
                  (case timeCompare H left lhs op rhs of
                     (tc, lg) \<Rightarrow>
                       (let value0 = (case tc of Some v \<Rightarrow> v
                                      | None \<Rightarrow> compose H (val lhs) op (val rhs));
                            done = (\<lambda>v. (Inr \<lparr> dataType = ''boolean'',
                                                 expressionType = maxExpressionType (expressionType lhs)
                                                                    (expressionType rhs),
                                                 evalSpace = mergeEvalSpaces [evalSpace lhs, evalSpace rhs],
                                                 val = v, morphic = None, timeframe = None,
                                                 rawType = None \<rparr>, lg))
                        in if dataType lhs \<noteq> ''error'' \<and> dataType rhs \<noteq> ''error''
                           then (if op = ''~'' \<or> op = ''!~''
                                 then (if dataType lhs = ''string'' \<and> dataType rhs = ''string''
                                       then done (nullsafeNot H (compose H (val lhs) ''LIKE'' (val rhs)) op)
                                       else (case regexEqual lhs rhs of
                                               None \<Rightarrow>
                                                 (Inl (''Incompatible types for match('' @ quoted ''~''
                                                       @ '') operator''), lg)
                                             | Some regexCmp \<Rightarrow> done (nullsafeNot H regexCmp op)))
                                 else if op = ''='' \<or> op = ''!=''
                                 then (case nullCompare lhs op rhs of
                                         Some nullCmp \<Rightarrow> done nullCmp
                                       | None \<Rightarrow>
                                           done (nullsafeNot H
                                                   (case regexEqual lhs rhs of
                                                      Some v \<Rightarrow> v
                                                    | None \<Rightarrow> compose H (val lhs) ''='' (val rhs))
                                                   op))
                                 else done value0)
                           else done value0))))"

definition compareOf ::
  "Helpers \<Rightarrow> ExpressionDef \<Rightarrow> ExprValue \<Rightarrow> string \<Rightarrow> ExpressionDef \<Rightarrow> ExprValue \<Rightarrow>
     (string + ExprValue) \<times> log" where
  "compareOf H left lhs op right rhs =
     (case errorCascade ''boolean'' [lhs, rhs] of
        Some err \<Rightarrow> (Inr err, [])
      | None \<Rightarrow>
          (case unsupportError left lhs right rhs of
             Some (noCompare, lg) \<Rightarrow> (Inr (noCompare\<lparr> dataType := ''boolean'' \<rparr>), lg)
           | None \<Rightarrow>
               (case timeCompare H left lhs op rhs of
                  (tc, lg) \<Rightarrow>
                    (Inr \<lparr> dataType = ''boolean'',
                           expressionType = maxExpressionType (expressionType lhs) (expressionType rhs),
                           evalSpace = mergeEvalSpaces [evalSpace lhs, evalSpace rhs],
                           val = (case tc of Some v \<Rightarrow> v
                                  | None \<Rightarrow> compose H (val lhs) op (val rhs)),
                           morphic = None, timeframe = None, rawType = None \<rparr>, lg))))"

definition allAre :: "string \<Rightarrow> ExprValue list \<Rightarrow> bool" where
  "allAre oneType values = list_all (\<lambda>v. dataType v = oneType) values"

definition numericOf ::
  "Helpers \<Rightarrow> ExpressionDef \<Rightarrow> ExprValue \<Rightarrow> string \<Rightarrow> ExpressionDef \<Rightarrow> ExprValue \<Rightarrow>
     (string + ExprValue) \<times> log" where
  "numericOf H left lhs op right rhs =
     (case errorCascade ''number'' [lhs, rhs] of
        Some err \<Rightarrow> (Inr err, [])
      | None \<Rightarrow>
          (case unsupportError left lhs right rhs of
             Some (noGo, lg) \<Rightarrow> (Inr noGo, lg)
           | None \<Rightarrow>
               (if allAre ''number'' [lhs, rhs]
                then (Inr \<lparr> dataType = ''number'',
                            expressionType = maxExpressionType (expressionType lhs) (expressionType rhs),
                            evalSpace = mergeEvalSpaces [evalSpace lhs, evalSpace rhs],
                            val = compose H (val lhs) op (val rhs),
                            morphic = None, timeframe = None, rawType = None \<rparr>, [])
                else (Inr (errorFor ''numbers required''),
                      [(e_location left,
                        ''Non numeric('' @ [CHR 0x27] @ dataType lhs @ '','' @ dataType rhs @ [CHR 0x27]
                          @ '') value with '' @ quoted op)]))))"

text \<open>Evaluate both operands in the field space, left first, then run the body.\<close>

definition withOperands ::
  "FieldSpace \<Rightarrow> ExpressionDef \<Rightarrow> ExpressionDef \<Rightarrow>
     (ExprValue \<Rightarrow> ExprValue \<Rightarrow> FieldSpace \<Rightarrow> ExprValue result) \<Rightarrow> ExprValue result" where
  "withOperands fs left right body =
     andThen (getExpression fs left) (\<lambda>lhs fs1.
       andThen (getExpression fs1 right) (\<lambda>rhs fs2. body lhs rhs fs2))"

definition equality ::
  "Helpers \<Rightarrow> FieldSpace \<Rightarrow> ExpressionDef \<Rightarrow> string \<Rightarrow> ExpressionDef \<Rightarrow> ExprValue result" where
  "equality H fs left op right =
     withOperands fs left right
       (\<lambda>lhs rhs fs2. case equalityOf H left lhs op right rhs of (r, lg) \<Rightarrow> (r, lg, fs2))"

definition compare ::
  "Helpers \<Rightarrow> FieldSpace \<Rightarrow> ExpressionDef \<Rightarrow> string \<Rightarrow> ExpressionDef \<Rightarrow> ExprValue result" where
  "compare H fs left op right =
     withOperands fs left right
       (\<lambda>lhs rhs fs2. case compareOf H left lhs op right rhs of (r, lg) \<Rightarrow> (r, lg, fs2))"

definition numeric ::
  "Helpers \<Rightarrow> FieldSpace \<Rightarrow> ExpressionDef \<Rightarrow> string \<Rightarrow> ExpressionDef \<Rightarrow> ExprValue result" where
  "numeric H fs left op right =
     withOperands fs left right
       (\<lambda>lhs rhs fs2. case numericOf H left lhs op right rhs of (r, lg) \<Rightarrow> (r, lg, fs2))"

text \<open>
  In \<open>delta\<close> a time value on the left hands the operation to
  \<open>duration.apply(fs, op, left)\<close>, where \<open>duration\<close> is the right node itself or a
  new \<open>ExprDuration\<close> around it.  \<open>apply\<close> is a method that node classes override,
  so what it computes is the parameter \<open>durationApply\<close>.
\<close>

datatype Duration = TheRightNode | NewExprDuration string

type_synonym durationApply =
  "Duration \<Rightarrow> FieldSpace \<Rightarrow> string \<Rightarrow> ExpressionDef \<Rightarrow> ExpressionDef \<Rightarrow> ExprValue result"

definition delta ::
  "Helpers \<Rightarrow> durationApply \<Rightarrow> FieldSpace \<Rightarrow> ExpressionDef \<Rightarrow> string \<Rightarrow> ExpressionDef \<Rightarrow>
     ExprValue result" where
  "delta H dapply fs left op right =
     withOperands fs left right
       (\<lambda>lhs rhs fs2.
          case unsupportError left lhs right rhs of
            Some (noGo, lg) \<Rightarrow> (Inr noGo, lg, fs2)
          | None \<Rightarrow>
              (let timeLHS = isTimeFieldType (dataType lhs) in
               case errorCascade (if timeLHS then ''error'' else ''number'') [lhs, rhs] of
                 Some err \<Rightarrow> (Inr err, [], fs2)
               | None \<Rightarrow>
                   (if timeLHS
                    then (if dataType rhs \<noteq> ''duration''
                          then (case timeframe lhs of
                                  Some tf \<Rightarrow> dapply (NewExprDuration tf) fs2 op left right
                                | None \<Rightarrow>
                                    (if dataType lhs = ''date''
                                     then dapply (NewExprDuration ''day'') fs2 op left right
                                     else (Inr (errorFor (''time plus '' @ dataType rhs)),
                                           [(e_location left,
                                             ''Can not offset time by '' @ quoted (dataType rhs))],
                                           fs2)))
                          else dapply TheRightNode fs2 op left right)
                    else numeric H fs2 left op right)))"

definition divide ::
  "Helpers \<Rightarrow> FieldSpace \<Rightarrow> ExpressionDef \<Rightarrow> ExpressionDef \<Rightarrow> ExprValue result" where
  "divide H fs left right =
     withOperands fs left right
       (\<lambda>num denom fs2.
          case unsupportError left num right denom of
            Some (noGo, lg) \<Rightarrow>
              (Inr noGo, lg @ [(e_location left, ''Cannot operate with unsupported type'')], fs2)
          | None \<Rightarrow>
              (case errorCascade ''number'' [num, denom] of
                 Some err \<Rightarrow> (Inr err, [], fs2)
               | None \<Rightarrow>
                   (if dataType num \<noteq> ''number''
                    then (Inr (errorFor ''divide type mismatch''),
                          [(e_location left, ''Numerator for division must be a number'')], fs2)
                    else if dataType denom \<noteq> ''number''
                    then (Inr (errorFor ''divide type mismatch''),
                          [(e_location right, ''Denominator for division must be a number'')], fs2)
                    else (Inr \<lparr> dataType = ''number'',
                                expressionType = maxExpressionType (expressionType num)
                                                   (expressionType denom),
                                evalSpace = mergeEvalSpaces [evalSpace num, evalSpace denom],
                                val = [DivFragment (val num) (val denom)],
                                morphic = None, timeframe = None, rawType = None \<rparr>, [], fs2))))"

definition oneOf :: "string \<Rightarrow> string list \<Rightarrow> bool" where
  "oneOf op operators = (op \<in> set operators)"

definition applyBinary ::
  "Helpers \<Rightarrow> durationApply \<Rightarrow> FieldSpace \<Rightarrow> ExpressionDef \<Rightarrow> string \<Rightarrow> ExpressionDef \<Rightarrow>
     ExprValue result" where
  "applyBinary H dapply fs left op right =
     (if isEquality op then equality H fs left op right
      else if isComparison op then compare H fs left op right
      else if oneOf op [''+'', ''-''] then delta H dapply fs left op right
      else if oneOf op [''*'', ''%''] then numeric H fs left op right
      else if oneOf op [''/''] then divide H fs left right
      else (Inr (errorFor ''applybinary bad operator''),
            [(e_location left, ''Cannot use '' @ op @ '' operator here'')], fs))"

text \<open>The value that \<open>errorCascade\<close> builds for two operands.\<close>

definition cascading :: "string \<Rightarrow> ExprValue \<Rightarrow> ExprValue \<Rightarrow> ExprValue" where
  "cascading dt lhs rhs =
     \<lparr> dataType = dt,
       expressionType = maxExpressionType (expressionType lhs) (expressionType rhs),
       evalSpace = mergeEvalSpaces [evalSpace lhs, evalSpace rhs],
       val = [Str (quoted ''cascading error'')],
       morphic = None, timeframe = None, rawType = None \<rparr>"

section \<open>Filters\<close>

record FilterExpression =
  fx_code :: string
  fx_expression :: Expr
  fx_expressionType :: ExpressionType

record FilterElement =
  fe_location :: nat
  fe_expr :: ExpressionDef
  fe_exprSrc :: string

definition filterExpression ::
  "Helpers \<Rightarrow> FieldSpace \<Rightarrow> FilterElement \<Rightarrow> FilterExpression result" where
  "filterExpression H fs el =
     andThen (getExpression fs (fe_expr el)) (\<lambda>exprVal fs1.
       if dataType exprVal \<noteq> ''boolean''
       then (Inr \<lparr> fx_code = fe_exprSrc el,
                   fx_expression = [Str ''_FILTER_MUST_RETURN_BOOLEAN_''],
                   fx_expressionType = Scalar \<rparr>,
             [(e_location (fe_expr el), ''Filter expression must have boolean value'')], fs1)
       else (Inr \<lparr> fx_code = fe_exprSrc el,
                   fx_expression = compressExpr H (val exprVal),
                   fx_expressionType = expressionType exprVal \<rparr>, [], fs1))"

text \<open>
  The class \<open>Filter\<close>: the constructor leaves the private field \<open>havingClause\<close>
  undefined, and the setter \<open>having\<close> assigns \<open>elementType\<close>.
\<close>

record Filter =
  fl_location :: nat
  fl_list :: "FilterElement list"
  elementType :: string
  havingClause :: "bool option"

definition new_Filter :: "nat \<Rightarrow> FilterElement list \<Rightarrow> Filter" where
  "new_Filter at elements =
     \<lparr> fl_location = at, fl_list = elements, elementType = ''filter'', havingClause = None \<rparr>"

definition set_having :: "Filter \<Rightarrow> bool \<Rightarrow> Filter" where
  "set_having f isHaving = f\<lparr> elementType := (if isHaving then ''having'' else ''where'') \<rparr>"

definition prepend :: "log \<Rightarrow> 'a result \<Rightarrow> 'a result" where
  "prepend lg r = (case r of (v, lg', fs) \<Rightarrow> (v, lg @ lg', fs))"

fun getFilterLoop ::
  "Helpers \<Rightarrow> bool option \<Rightarrow> FilterElement list \<Rightarrow> FieldSpace \<Rightarrow> FilterExpression list \<Rightarrow>
     FilterExpression list result" where
  "getFilterLoop H hc [] fs checked = (Inr checked, [], fs)"
| "getFilterLoop H hc (oneElement # rest) fs checked =
     (case filterExpression H fs oneElement of
        (Inl err, lg, fs1) \<Rightarrow> (Inl err, lg, fs1)
      | (Inr fExpr, lg, fs1) \<Rightarrow>
          (if hc = Some True \<and> expressionIsCalculation (Some (fx_expressionType fExpr))
           then prepend (lg @ [(fe_location oneElement,
                                ''Aggregate or Analytical expression expected in HAVING filter'')])
                  (getFilterLoop H hc rest fs1 checked)
           else if hc = Some False \<and> fx_expressionType fExpr \<noteq> Scalar
           then prepend (lg @ [(fe_location oneElement,
                                ''Aggregate or Analytical expressions not allowed in WHERE'')])
                  (getFilterLoop H hc rest fs1 checked)
           else prepend lg (getFilterLoop H hc rest fs1 (checked @ [fExpr]))))"

definition getFilterList :: "Helpers \<Rightarrow> Filter \<Rightarrow> FieldSpace \<Rightarrow> FilterExpression list result" where
  "getFilterList H f fs = getFilterLoop H (havingClause f) (fl_list f) fs []"

section \<open>Top\<close>

datatype TopInit = ByFieldName FieldName | ByExpression ExpressionDef

record Top =
  top_location :: nat
  top_limit :: int
  top_by :: "TopInit option"

datatype By = ByName string | ByExpr Expr

definition getBy :: "Helpers \<Rightarrow> Top \<Rightarrow> FieldSpace \<Rightarrow> By option result" where
  "getBy H tp fs =
     (case top_by tp of
        None \<Rightarrow> (Inr None, [], fs)
      | Some (ByFieldName n) \<Rightarrow> (Inr (Some (ByName (refString n))), [], fs)
      | Some (ByExpression e) \<Rightarrow>
          andThen (getExpression fs e) (\<lambda>byExpr fs1.
            (Inr (Some (ByExpr (compressExpr H (val byExpr)))),
             (if expressionIsAggregate (Some (expressionType byExpr))
              then [(top_location tp, ''top by expression must be an aggregate'')] else []),
             fs1)))"

section \<open>Field declarations\<close>






text \<open>Sequencing of computations, to build the trees of compound nodes.\<close>

primrec bindE :: "'a Eval \<Rightarrow> ('a \<Rightarrow> 'b Eval) \<Rightarrow> 'b Eval" where
  "bindE (Return v) = (\<lambda>f. f v)"
| "bindE (Throw message) = (\<lambda>f. Throw message)"
| "bindE (Log at message k) = (\<lambda>f. Log at message (bindE k f))"
| "bindE (Lookup symbol k) = (\<lambda>f. Lookup symbol (\<lambda>res. bindE (k res) f))"

section \<open>Pipe segments\<close>

datatype SegType = Reduce | Project | Index

fun segTypeName :: "SegType \<Rightarrow> string" where
  "segTypeName Reduce = ''reduce''"
| "segTypeName Project = ''project''"
| "segTypeName Index = ''index''"

datatype Dir = Asc | Desc

record OrderBy =
  ob_field :: "nat + string"
  ob_dir :: "Dir option"

datatype Sampling = SampleRows nat | SamplePercent nat | SampleEnable bool

text \<open>
  One record for the three kinds of \<open>PipeSegment\<close>, with the optional properties as
  options.
\<close>

record PipeSegment =
  seg_type :: SegType
  seg_fields :: "QueryFieldDef list"
  seg_orderBy :: "OrderBy list option"
  seg_by :: "By option"
  seg_limit :: "int option"
  seg_filterList :: "FilterExpression list option"
  seg_extendSource :: "FieldDef list option"
  seg_weightMeasure :: "string option"
  seg_sample :: "Sampling option"

definition newSegment :: "SegType \<Rightarrow> QueryFieldDef list \<Rightarrow> PipeSegment" where
  "newSegment t fs =
     \<lparr> seg_type = t, seg_fields = fs, seg_orderBy = None, seg_by = None, seg_limit = None,
       seg_filterList = None, seg_extendSource = None, seg_weightMeasure = None,
       seg_sample = None \<rparr>"

text \<open>
  Modelled from the spec: the sentinel segments of \<open>ErrorFactory\<close> are well-formed and
  empty.
\<close>

definition ErrorFactory_reduceSegment :: PipeSegment where
  "ErrorFactory_reduceSegment = newSegment Reduce []"


definition ErrorFactory_indexSegment :: PipeSegment where
  "ErrorFactory_indexSegment = newSegment Index []"

text \<open>A JavaScript number in a condition: \<open>undefined\<close> and \<open>0\<close> are falsy.\<close>

definition truthy :: "int option \<Rightarrow> bool" where
  "truthy n = (n \<noteq> None \<and> n \<noteq> Some 0)"

section \<open>Query properties\<close>

record OrderByElement =
  oe_field :: "nat + FieldName"
  oe_dir :: "Dir option"

definition getOrderBy :: "OrderByElement \<Rightarrow> OrderBy" where
  "getOrderBy el =
     \<lparr> ob_field = (case oe_field el of Inl n \<Rightarrow> Inl n | Inr f \<Rightarrow> Inr (refString f)),
       ob_dir = oe_dir el \<rparr>"

record Ordering =
  ord_location :: nat
  ord_list :: "OrderByElement list"

definition Ordering_getOrderBy :: "Ordering \<Rightarrow> OrderBy list" where
  "Ordering_getOrderBy ob = map getOrderBy (ord_list ob)"

record Limit =
  lim_location :: nat
  lim_limit :: int

record WildcardFieldReference =
  wr_location :: nat
  wr_refString :: string

text \<open>
  A field declaration inside a query, given by its name and the definition that
  \<open>queryFieldDef\<close> yields for it in the input space of the query.
\<close>

record DeclaredField =
  df_location :: nat
  df_name :: string
  df_def :: FieldTypeDef

datatype FieldCollectionMember =
    RefMember FieldReference
  | WildMember WildcardFieldReference
  | DeclMember DeclaredField

datatype QueryItem =
    DeclItem DeclaredField
  | RefItem FieldReference
  | NestItem TurtleDecl

record IndexProperty =
  idx_location :: nat
  idx_fields :: "FieldCollectionMember list"
  idx_weightBy :: "FieldName option"

datatype DeclareKind = Declare | Measure | Dimension

datatype QueryProperty =
    GroupBy nat "QueryItem list"
  | AggregateProperty nat "QueryItem list"
  | Nests nat "QueryItem list"
  | NestedQueryProperty QueryItem
  | FilterProperty Filter
  | TopProperty Top
  | LimitProperty Limit
  | OrderingProperty Ordering
  | Joins nat "Join list"
  | DeclareFields nat DeclareKind "DeclaredField list"
  | ProjectStatement nat "FieldCollectionMember list"
  | IndexStatement IndexProperty
  | SampleProperty nat Sampling

fun propertyLocation :: "QueryProperty \<Rightarrow> nat" where
  "propertyLocation (GroupBy at xs) = at"
| "propertyLocation (AggregateProperty at xs) = at"
| "propertyLocation (Nests at xs) = at"
| "propertyLocation (NestedQueryProperty (DeclItem d)) = df_location d"
| "propertyLocation (NestedQueryProperty (RefItem r)) = fr_location r"
| "propertyLocation (NestedQueryProperty (NestItem t)) = td_location t"
| "propertyLocation (FilterProperty f) = fl_location f"
| "propertyLocation (TopProperty t) = top_location t"
| "propertyLocation (LimitProperty l) = lim_location l"
| "propertyLocation (OrderingProperty ob) = ord_location ob"
| "propertyLocation (Joins at js) = at"
| "propertyLocation (DeclareFields at k ds) = at"
| "propertyLocation (ProjectStatement at ms) = at"
| "propertyLocation (IndexStatement i) = idx_location i"
| "propertyLocation (SampleProperty at s) = at"

section \<open>Result spaces\<close>

text \<open>
  A computation that logs and may throw; what was logged before a throw stays logged.
\<close>

type_synonym 'a logged = "(string + 'a) \<times> log"

definition prependL :: "log \<Rightarrow> 'a logged \<Rightarrow> 'a logged" where
  "prependL lg r = (case r of (v, lg') \<Rightarrow> (v, lg @ lg'))"

definition thenL :: "'a logged \<Rightarrow> ('a \<Rightarrow> 'b logged) \<Rightarrow> 'b logged" where
  "thenL r k = (case r of (Inl err, lg) \<Rightarrow> (Inl err, lg) | (Inr v, lg) \<Rightarrow> prependL lg (k v))"

definition thrown :: "string + 'a \<Rightarrow> 'a logged" where
  "thrown r = (r, [])"

definition withLog :: "string + (log \<times> 'a) \<Rightarrow> 'a logged" where
  "withLog r = (case r of Inl err \<Rightarrow> (Inl err, []) | Inr (lg, v) \<Rightarrow> (Inr v, lg))"

fun forEach :: "('s \<Rightarrow> 'x \<Rightarrow> 's logged) \<Rightarrow> 'x list \<Rightarrow> 's \<Rightarrow> 's logged" where
  "forEach f [] s = (Inr s, [])"
| "forEach f (x # xs) s =
     (case f s x of
        (Inl err, lg) \<Rightarrow> (Inl err, lg)
      | (Inr s1, lg) \<Rightarrow> prependL lg (forEach f xs s1))"

text \<open>
  \<open>QuerySpace\<close> and \<open>ResultSpace\<close> extend \<open>DynamicSpace\<close>.  \<open>exprLookup\<close> is the
  lookup of \<open>exprSpace\<close> as expressions and references see it, \<open>segmentType\<close> tells the
  subclass, and \<open>fieldList\<close> is the set of names of an \<open>IndexFieldSpace\<close>, in
  insertion order.
\<close>

record QuerySpace = DynamicSpace +
  extendList :: "string list"

record ResultSpace = DynamicSpace +
  exprSpace :: QuerySpace
  exprLookup :: FieldSpace
  astEl :: "nat option"
  segmentType :: SegType
  fieldList :: "string list"

definition new_QuerySpace :: "StructDef \<Rightarrow> QuerySpace" where
  "new_QuerySpace inputStruct =
     \<lparr> fromStruct = inputStruct, memoMap = None, final = None,
       completions = [], complete = False, ran = [], extendList = [] \<rparr>"

text \<open>
  The constructor: the result space starts from the empty struct of the input space,
  the expression space from its struct.
\<close>

definition new_ResultSpace :: "SegType \<Rightarrow> StructDef \<Rightarrow> FieldSpace \<Rightarrow> ResultSpace" where
  "new_ResultSpace t inputStruct view =
     \<lparr> fromStruct = withFields inputStruct [], memoMap = None, final = None,
       completions = [], complete = False, ran = [],
       exprSpace = new_QuerySpace inputStruct, exprLookup = view, astEl = None,
       segmentType = t, fieldList = [] \<rparr>"

definition ResultSpace_log :: "nat option \<Rightarrow> string \<Rightarrow> log" where
  "ResultSpace_log el s = (case el of None \<Rightarrow> [] | Some a \<Rightarrow> [(a, s)])"

definition setAdd :: "string list \<Rightarrow> string \<Rightarrow> string list" where
  "setAdd xs x = (if x \<in> set xs then xs else xs @ [x])"

definition addField_Declaration ::
  "'a DynamicSpace_scheme \<Rightarrow> DeclaredField \<Rightarrow> 'a DynamicSpace_scheme logged" where
  "addField_Declaration sp d =
     withLog (newEntry sp (df_name d) (df_location d) (ExpressionFieldFromAst (df_name d) (df_def d)))"

definition addField_Join :: "'a DynamicSpace_scheme \<Rightarrow> Join \<Rightarrow> 'a DynamicSpace_scheme logged" where
  "addField_Join sp j =
     withLog (newEntry sp (refString (j_name j)) (j_location j) (JoinSpaceField j))"

definition addReference :: "ResultSpace \<Rightarrow> FieldReference \<Rightarrow> ResultSpace logged" where
  "addReference rs r =
     (if segmentType rs = Index
      then (case lookup (exprLookup rs) (fr_path r) of
              (res, fs1) \<Rightarrow>
                (Inr (if lr_found res \<noteq> None
                      then rs\<lparr> exprLookup := fs1, fieldList := setAdd (fieldList rs) (fr_refString r) \<rparr>
                      else rs\<lparr> exprLookup := fs1 \<rparr>), []))
      else (case entry rs (fr_outputName r) of
              Inl err \<Rightarrow> (Inl err, [])
            | Inr (found, rs1) \<Rightarrow>
                (if found \<noteq> Undefined
                 then (Inr rs1, [(fr_location r,
                                  ''Output already has a field named '' @ quoted (fr_outputName r))])
                 else thrown (setEntry rs1 (fr_outputName r) (ReferenceField r)))))"

definition addWild :: "ResultSpace \<Rightarrow> WildcardFieldReference \<Rightarrow> ResultSpace logged" where
  "addWild rs wild =
     (if segmentType rs = Index
      then (Inr (rs\<lparr> fieldList := setAdd (fieldList rs) (wr_refString wild) \<rparr>), [])
      else thrown (setEntry rs (wr_refString wild) (WildSpaceField (wr_refString wild))))"

fun addMember :: "ResultSpace \<Rightarrow> FieldCollectionMember \<Rightarrow> ResultSpace logged" where
  "addMember rs (RefMember r) = addReference rs r"
| "addMember rs (WildMember wild) = addWild rs wild"
| "addMember rs (DeclMember d) = addField_Declaration rs d"

definition addMembers :: "ResultSpace \<Rightarrow> FieldCollectionMember list \<Rightarrow> ResultSpace logged" where
  "addMembers rs members = forEach addMember members rs"

fun addQueryItem :: "ResultSpace \<Rightarrow> QueryItem \<Rightarrow> ResultSpace logged" where
  "addQueryItem rs (RefItem r) = addReference rs r"
| "addQueryItem rs (DeclItem d) = addField_Declaration rs d"
| "addQueryItem rs (NestItem qi) = thrown (setEntry rs (td_name qi) (QueryFieldAST qi None))"

definition addQueryItems :: "ResultSpace \<Rightarrow> QueryItem list \<Rightarrow> ResultSpace logged" where
  "addQueryItems rs qiList = forEach addQueryItem qiList rs"

text \<open>
  \<open>getQueryFieldDef(fs)\<close> of each entry class; \<open>None\<close> is \<open>undefined\<close>, the default
  of \<open>SpaceField\<close>.
\<close>

fun getQueryFieldDef :: "FieldSpace \<Rightarrow> SpaceEntry \<Rightarrow> QueryFieldDef option \<times> log \<times> FieldSpace" where
  "getQueryFieldDef fs (ReferenceField r) =
     (case lookup fs (fr_path r) of
        (check, fs1) \<Rightarrow>
          (Some (QRef (fr_refString r)),
           (case lr_error check of
              None \<Rightarrow> []
            | Some err \<Rightarrow> if err = [] then [] else [(fr_location r, err)]),
           fs1))"
| "getQueryFieldDef fs (WildSpaceField wildText) = (Some (QRef wildText), [], fs)"
| "getQueryFieldDef fs (ExpressionFieldFromAst n d) = (Some (QField d), [], fs)"
| "getQueryFieldDef fs (QueryFieldStruct t) = (Some (QTurtle t), [], fs)"
| "getQueryFieldDef fs (QueryFieldAST decl renameAs) =
     (Some (QTurtle (case renameAs of
                       None \<Rightarrow> td_fieldDef decl
                     | Some r \<Rightarrow> if r = [] then td_fieldDef decl
                                 else (td_fieldDef decl)\<lparr> t_as := Some r \<rparr>)), [], fs)"
| "getQueryFieldDef fs e = (None, [], fs)"

text \<open>
  \<open>canContain\<close>: always true for a \<open>ResultSpace\<close>, overridden by
  \<open>ProjectFieldSpace\<close>.
\<close>

fun ProjectFieldSpace_canContain :: "nat option \<Rightarrow> QueryFieldDef \<Rightarrow> bool \<times> log" where
  "ProjectFieldSpace_canContain el (QRef s) = (True, [])"
| "ProjectFieldSpace_canContain el (QFilteredAlias a) = (True, [])"
| "ProjectFieldSpace_canContain el (QTurtle t) =
     (False, ResultSpace_log el ''Cannot nest queries in project'')"
| "ProjectFieldSpace_canContain el (QField d) =
     (if expressionIsAggregate (f_expressionType d)
      then (False, ResultSpace_log el ''Cannot add aggregate measures to project'')
      else (True, []))"

definition canContain :: "SegType \<Rightarrow> nat option \<Rightarrow> QueryFieldDef \<Rightarrow> bool \<times> log" where
  "canContain t el qd = (if t = Project then ProjectFieldSpace_canContain el qd else (True, []))"

fun queryFieldLoop ::
  "SegType \<Rightarrow> nat option \<Rightarrow> FieldMap \<Rightarrow> FieldSpace \<Rightarrow> QueryFieldDef list \<Rightarrow>
     (QueryFieldDef list \<times> FieldSpace) logged" where
  "queryFieldLoop t el [] fs flds = (Inr (flds, fs), [])"
| "queryFieldLoop t el ((name, field) # rest) fs flds =
     (if isSpaceField field
      then (case getQueryFieldDef fs field of
              (None, lg, fs1) \<Rightarrow>
                (Inl (quoted name @ '' does not have a QueryFieldDef''), lg)
            | (Some fieldQueryDef, lg, fs1) \<Rightarrow>
                (case canContain t el fieldQueryDef of
                   (True, lg2) \<Rightarrow>
                     prependL (lg @ lg2) (queryFieldLoop t el rest fs1 (flds @ [fieldQueryDef]))
                 | (False, lg2) \<Rightarrow>
                     prependL (lg @ lg2 @ ResultSpace_log el
                                 (quoted name @ '' not legal in '' @ segTypeName t))
                       (queryFieldLoop t el rest fs1 flds)))
      else queryFieldLoop t el rest fs flds)"

definition queryFieldDefs :: "ResultSpace \<Rightarrow> (QueryFieldDef list \<times> ResultSpace) logged" where
  "queryFieldDefs rs =
     (case entries rs of
        Inl (err, rs1) \<Rightarrow> (Inl err, [])
      | Inr (m, rs1) \<Rightarrow>
          thenL (queryFieldLoop (segmentType rs) (astEl rs) m (exprLookup rs) [])
            (\<lambda>(flds, fs1). (Inr (flds, isComplete (rs1\<lparr> exprLookup := fs1 \<rparr>)), [])))"

text \<open>
  \<open>ResultSpace.getPipeSegment\<close>, for reduce and project spaces.  The fields of the
  segment to refine, its \<open>extendSource\<close>, and the fields that this segment declared
  in its input space are merged by \<open>mergeFields\<close>.
\<close>

definition findExtends :: "StructDef \<Rightarrow> string list \<Rightarrow> FieldDef list" where
  "findExtends extendedStruct names =
     concat (map (\<lambda>extendName.
                    case find (\<lambda>f. nameOf f = extendName) (s_fields extendedStruct) of
                      None \<Rightarrow> [] | Some extendEnt \<Rightarrow> [extendEnt]) names)"

definition oldFields :: "PipeSegment option \<Rightarrow> QueryFieldDef list option" where
  "oldFields rf = (case rf of None \<Rightarrow> None | Some f \<Rightarrow> Some (seg_fields f))"

definition oldExtends :: "PipeSegment option \<Rightarrow> FieldDef list option" where
  "oldExtends rf = (case rf of None \<Rightarrow> None | Some f \<Rightarrow> seg_extendSource f)"

definition addOldExtends :: "QuerySpace \<Rightarrow> FieldDef list option \<Rightarrow> string + QuerySpace" where
  "addOldExtends qs xs =
     (case xs of
        None \<Rightarrow> Inr qs
      | Some xFields \<Rightarrow>
          fold (\<lambda>xField r. case r of Inl err \<Rightarrow> Inl err | Inr sp \<Rightarrow> addFieldDef sp xField)
            xFields (Inr qs))"

definition withNewExtends ::
  "Helpers \<Rightarrow> fixup \<Rightarrow> ResultSpace \<Rightarrow> PipeSegment \<Rightarrow> (PipeSegment \<times> ResultSpace) logged" where
  "withNewExtends H fixupJoinOn rs segment =
     (if extendList (exprSpace rs) \<noteq> []
      then (case structDef fixupJoinOn (exprSpace rs) of
              (Inl err, xs2) \<Rightarrow> (Inl err, [])
            | (Inr extendedStruct, xs2) \<Rightarrow>
                (Inr (segment\<lparr> seg_extendSource :=
                         Some (mergeFieldDefs H (seg_extendSource segment)
                                 (findExtends extendedStruct (extendList (exprSpace rs)))) \<rparr>,
                      isComplete (rs\<lparr> exprSpace := xs2 \<rparr>)), []))
      else (Inr (segment, isComplete rs), []))"

definition getPipeSegment ::
  "Helpers \<Rightarrow> fixup \<Rightarrow> ResultSpace \<Rightarrow> PipeSegment option \<Rightarrow> (PipeSegment \<times> ResultSpace) logged" where
  "getPipeSegment H fixupJoinOn rs rf =
     (if segmentType rs = Index then (Inl ''INDEX FIELD PIPE SEGMENT MIS HANDLED'', [])
      else
        thenL (thrown (addOldExtends (exprSpace rs) (oldExtends rf)))
          (\<lambda>xs1.
             thenL (queryFieldDefs (rs\<lparr> exprSpace := xs1 \<rparr>))
               (\<lambda>(flds, rs1).
                  withNewExtends H fixupJoinOn rs1
                    ((newSegment (segmentType rs) (mergeQueryFields H (oldFields rf) flds))
                       \<lparr> seg_extendSource := oldExtends rf \<rparr>))))"

text \<open>\<open>IndexFieldSpace.getPipeSegment\<close>\<close>

definition IndexFieldSpace_getPipeSegment ::
  "ResultSpace \<Rightarrow> PipeSegment option \<Rightarrow> PipeSegment \<times> ResultSpace" where
  "IndexFieldSpace_getPipeSegment rs refineIndex =
     (let names = (case refineIndex of
                     None \<Rightarrow> fieldList rs
                   | Some ri \<Rightarrow>
                       fold (\<lambda>exists acc. case exists of QRef s \<Rightarrow> setAdd acc s | other \<Rightarrow> acc)
                         (seg_fields ri) (fieldList rs));
          rs1 = isComplete (rs\<lparr> fieldList := names \<rparr>)
      in (newSegment Index (map QRef names), rs1))"

section \<open>Segment executors\<close>

datatype ExtendField = ExtendJoin Join | ExtendDeclaration DeclaredField

fun extendSource :: "QuerySpace \<Rightarrow> ExtendField \<Rightarrow> QuerySpace logged" where
  "extendSource qs (ExtendJoin j) =
     thenL (addField_Join qs j)
       (\<lambda>qs1. (Inr (qs1\<lparr> extendList := extendList qs1 @ [refString (j_name j)] \<rparr>), []))"
| "extendSource qs (ExtendDeclaration d) =
     thenL (addField_Declaration qs d)
       (\<lambda>qs1. (Inr (qs1\<lparr> extendList := extendList qs1 @ [df_name d] \<rparr>), []))"

datatype Order = OrderTop Top | OrderOrdering Ordering

text \<open>
  \<open>ReduceExecutor\<close>; \<open>inputFS\<close> is \<open>resultFS.exprSpace\<close>, and
  \<open>ProjectExecutor\<close> is the same record over a project space.
\<close>

record ReduceExecutor =
  resultFS :: ResultSpace
  filters :: "FilterExpression list"
  re_order :: "Order option"
  re_limit :: "int option"

definition new_ReduceExecutor :: "StructDef \<Rightarrow> FieldSpace \<Rightarrow> ReduceExecutor" where
  "new_ReduceExecutor baseStruct view =
     \<lparr> resultFS = new_ResultSpace Reduce baseStruct view, filters = [], re_order = None,
       re_limit = None \<rparr>"


definition toResult :: "ReduceExecutor \<Rightarrow> ResultSpace logged \<Rightarrow> ReduceExecutor logged" where
  "toResult ex r = thenL r (\<lambda>rs. (Inr (ex\<lparr> resultFS := rs \<rparr>), []))"

definition toInput :: "ReduceExecutor \<Rightarrow> QuerySpace logged \<Rightarrow> ReduceExecutor logged" where
  "toInput ex r = thenL r (\<lambda>qs. (Inr (ex\<lparr> resultFS := (resultFS ex)\<lparr> exprSpace := qs \<rparr> \<rparr>), []))"

definition pushFilters ::
  "ReduceExecutor \<Rightarrow> FilterExpression list result \<Rightarrow> ReduceExecutor logged" where
  "pushFilters ex r =
     (case r of
        (Inl err, lg, fs1) \<Rightarrow> (Inl err, lg)
      | (Inr fl, lg, fs1) \<Rightarrow>
          (Inr (ex\<lparr> filters := filters ex @ fl,
                    resultFS := (resultFS ex)\<lparr> exprLookup := fs1 \<rparr> \<rparr>), lg))"

definition setLimit :: "ReduceExecutor \<Rightarrow> nat \<Rightarrow> int \<Rightarrow> ReduceExecutor \<times> log" where
  "setLimit ex at n =
     (if truthy (re_limit ex) then (ex, [(at, ''Query operation already limited'')])
      else (ex\<lparr> re_limit := Some n \<rparr>, []))"

fun ReduceExecutor_execute :: "Helpers \<Rightarrow> ReduceExecutor \<Rightarrow> QueryProperty \<Rightarrow> ReduceExecutor logged" where
  "ReduceExecutor_execute H ex (GroupBy at items) = toResult ex (addQueryItems (resultFS ex) items)"
| "ReduceExecutor_execute H ex (AggregateProperty at items) =
     toResult ex (addQueryItems (resultFS ex) items)"
| "ReduceExecutor_execute H ex (Nests at items) = toResult ex (addQueryItems (resultFS ex) items)"
| "ReduceExecutor_execute H ex (NestedQueryProperty qp) =
     toResult ex (addQueryItems (resultFS ex) [qp])"
| "ReduceExecutor_execute H ex (FilterProperty qp) =
     pushFilters ex (getFilterList H qp (exprLookup (resultFS ex)))"
| "ReduceExecutor_execute H ex (TopProperty qp) =
     (case setLimit ex (top_location qp) (top_limit qp) of
        (ex1, lg1) \<Rightarrow>
          (if top_by qp \<noteq> None
           then (if re_order ex1 \<noteq> None
                 then (Inr ex1, lg1 @ [(top_location qp, ''Query operation is already sorted'')])
                 else (Inr (ex1\<lparr> re_order := Some (OrderTop qp) \<rparr>), lg1))
           else (Inr ex1, lg1)))"
| "ReduceExecutor_execute H ex (LimitProperty qp) =
     (case setLimit ex (lim_location qp) (lim_limit qp) of (ex1, lg1) \<Rightarrow> (Inr ex1, lg1))"
| "ReduceExecutor_execute H ex (OrderingProperty qp) =
     (if re_order ex \<noteq> None
      then (Inr ex, [(ord_location qp, ''Query operation already sorted'')])
      else (Inr (ex\<lparr> re_order := Some (OrderOrdering qp) \<rparr>), []))"
| "ReduceExecutor_execute H ex (Joins at js) =
     toInput ex (forEach extendSource (map ExtendJoin js) (exprSpace (resultFS ex)))"
| "ReduceExecutor_execute H ex (DeclareFields at k ds) =
     toInput ex (forEach extendSource (map ExtendDeclaration ds) (exprSpace (resultFS ex)))"
| "ReduceExecutor_execute H ex qp = (Inr ex, [])"


text \<open>\<open>ReduceExecutor.refineFrom\<close>, in the order of its statements.\<close>

definition inheritOrder :: "ReduceExecutor \<Rightarrow> PipeSegment \<Rightarrow> PipeSegment \<Rightarrow> PipeSegment" where
  "inheritOrder ex frm to =
     (if re_order ex = None
      then (case seg_orderBy frm of
              Some ob \<Rightarrow> to\<lparr> seg_orderBy := Some ob \<rparr>
            | None \<Rightarrow> (case seg_by frm of Some b \<Rightarrow> to\<lparr> seg_by := Some b \<rparr> | None \<Rightarrow> to))
      else to)"

definition inheritLimit :: "ReduceExecutor \<Rightarrow> PipeSegment \<Rightarrow> PipeSegment \<Rightarrow> PipeSegment" where
  "inheritLimit ex frm to =
     (if \<not> truthy (re_limit ex) \<and> truthy (seg_limit frm)
      then to\<lparr> seg_limit := seg_limit frm \<rparr> else to)"

definition oldFiltersOf :: "PipeSegment option \<Rightarrow> FilterExpression list" where
  "oldFiltersOf frm =
     (case frm of
        None \<Rightarrow> []
      | Some f \<Rightarrow> (case seg_filterList f of None \<Rightarrow> [] | Some l \<Rightarrow> l))"

definition refineFrom ::
  "Helpers \<Rightarrow> ReduceExecutor \<Rightarrow> PipeSegment option \<Rightarrow> PipeSegment \<Rightarrow>
     (PipeSegment \<times> ReduceExecutor) logged" where
  "refineFrom H ex frm to =
     (let to1 = (case frm of
                   None \<Rightarrow> to
                 | Some f \<Rightarrow> if seg_type f \<noteq> Index
                             then inheritLimit ex f (inheritOrder ex f to) else to);
          to2 = (if truthy (re_limit ex) then to1\<lparr> seg_limit := re_limit ex \<rparr> else to1);
          byTop = (case re_order ex of
                     Some (OrderTop t) \<Rightarrow>
                       (case getBy H t (exprLookup (resultFS ex)) of
                          (Inl err, lg, fs1) \<Rightarrow> (Inl err, lg)
                        | (Inr topBy, lg, fs1) \<Rightarrow>
                            (Inr (case topBy of None \<Rightarrow> to2 | Some b \<Rightarrow> to2\<lparr> seg_by := Some b \<rparr>,
                                  fs1), lg))
                   | other \<Rightarrow> (Inr (to2, exprLookup (resultFS ex)), []))
      in thenL byTop
           (\<lambda>(to3, fs1).
              (let to4 = (case re_order ex of
                            Some (OrderOrdering ob) \<Rightarrow> to3\<lparr> seg_orderBy := Some (Ordering_getOrderBy ob) \<rparr>
                          | other \<Rightarrow> to3);
                   to5 = to4\<lparr> seg_filterList := Some (oldFiltersOf frm @ filters ex) \<rparr>
               in (Inr (to5, ex\<lparr> resultFS := (resultFS ex)\<lparr> exprLookup := fs1 \<rparr> \<rparr>), []))))"

definition getQuerySegment ::
  "Helpers \<Rightarrow> fixup \<Rightarrow> ResultSpace \<Rightarrow> PipeSegment option \<Rightarrow> (PipeSegment \<times> ResultSpace) logged" where
  "getQuerySegment H fixupJoinOn rs rf =
     thenL (getPipeSegment H fixupJoinOn rs rf)
       (\<lambda>(p, rs1). if seg_type p = Index then (Inl ''TODO NOT POSSIBLE'', [])
                    else (Inr (p, rs1), []))"

text \<open>
  \<open>finalize\<close> of \<open>ReduceExecutor\<close> and of \<open>ProjectExecutor\<close>: a segment of
  another kind cannot be refined and gives the sentinel.
\<close>

definition finalizeAs ::
  "SegType \<Rightarrow> PipeSegment \<Rightarrow> Helpers \<Rightarrow> fixup \<Rightarrow> ReduceExecutor \<Rightarrow> PipeSegment option \<Rightarrow>
     (PipeSegment \<times> ReduceExecutor) logged" where
  "finalizeAs kind sentinel H fixupJoinOn ex fromSeg =
     (let mismatch = (case fromSeg of None \<Rightarrow> None
                      | Some f \<Rightarrow> if seg_type f = kind then None else Some (seg_type f))
      in case mismatch of
           Some t \<Rightarrow>
             (Inr (sentinel, ex),
              ResultSpace_log (astEl (resultFS ex))
                (''Can'' @ [CHR 0x27] @ ''t refine '' @ segTypeName kind @ '' with '' @ segTypeName t))
         | None \<Rightarrow>
             thenL (getQuerySegment H fixupJoinOn (resultFS ex) fromSeg)
               (\<lambda>(seg, rs1). refineFrom H (ex\<lparr> resultFS := rs1 \<rparr>) fromSeg seg))"

definition ReduceExecutor_finalize ::
  "Helpers \<Rightarrow> fixup \<Rightarrow> ReduceExecutor \<Rightarrow> PipeSegment option \<Rightarrow>
     (PipeSegment \<times> ReduceExecutor) logged" where
  "ReduceExecutor_finalize = finalizeAs Reduce ErrorFactory_reduceSegment"


text \<open>\<open>IndexExecutor\<close>\<close>

record IndexExecutor =
  ix_resultFS :: ResultSpace
  ix_filters :: "FilterExpression list"
  ix_limit :: "Limit option"
  ix_indexOn :: "FieldName option"
  ix_sample :: "Sampling option"

definition new_IndexExecutor :: "StructDef \<Rightarrow> FieldSpace \<Rightarrow> IndexExecutor" where
  "new_IndexExecutor inputStruct view =
     \<lparr> ix_resultFS = new_ResultSpace Index inputStruct view, ix_filters = [], ix_limit = None,
       ix_indexOn = None, ix_sample = None \<rparr>"

fun IndexExecutor_execute :: "Helpers \<Rightarrow> IndexExecutor \<Rightarrow> QueryProperty \<Rightarrow> IndexExecutor logged" where
  "IndexExecutor_execute H ex (FilterProperty qp) =
     (case getFilterList H qp (exprLookup (ix_resultFS ex)) of
        (Inl err, lg, fs1) \<Rightarrow> (Inl err, lg)
      | (Inr fl, lg, fs1) \<Rightarrow>
          (Inr (ex\<lparr> ix_filters := ix_filters ex @ fl,
                    ix_resultFS := (ix_resultFS ex)\<lparr> exprLookup := fs1 \<rparr> \<rparr>), lg))"
| "IndexExecutor_execute H ex (LimitProperty qp) =
     (Inr (ex\<lparr> ix_limit := Some qp \<rparr>),
      (case ix_limit ex of
         None \<Rightarrow> []
       | Some earlier \<Rightarrow> [(lim_location earlier, ''Ignored, too many limit: statements'')]))"
| "IndexExecutor_execute H ex (IndexStatement qp) =
     thenL (addMembers (ix_resultFS ex) (idx_fields qp))
       (\<lambda>rs. case idx_weightBy qp of
                None \<Rightarrow> (Inr (ex\<lparr> ix_resultFS := rs \<rparr>), [])
              | Some weightBy \<Rightarrow>
                  (Inr (ex\<lparr> ix_resultFS := rs, ix_indexOn := Some weightBy \<rparr>),
                   (case ix_indexOn ex of
                      None \<Rightarrow> []
                    | Some previous \<Rightarrow> [(fn_location previous, ''Ignoring previous BY'')])))"
| "IndexExecutor_execute H ex (SampleProperty at s) = (Inr (ex\<lparr> ix_sample := Some s \<rparr>), [])"
| "IndexExecutor_execute H ex qp =
     (Inr ex, [(propertyLocation qp, ''Not legal in an index query operation'')])"

definition IndexExecutor_finalize ::
  "IndexExecutor \<Rightarrow> PipeSegment option \<Rightarrow> (PipeSegment \<times> IndexExecutor) logged" where
  "IndexExecutor_finalize ex frm =
     (let mismatch = (case frm of None \<Rightarrow> None
                      | Some f \<Rightarrow> if seg_type f \<noteq> Index then Some (seg_type f) else None)
      in case mismatch of
           Some t \<Rightarrow>
             (Inr (ErrorFactory_indexSegment, ex),
              ResultSpace_log (astEl (ix_resultFS ex))
                (''Can'' @ [CHR 0x27] @ ''t refine index with '' @ segTypeName t))
         | None \<Rightarrow>
             (case IndexFieldSpace_getPipeSegment (ix_resultFS ex) frm of
                (indexSegment, rs1) \<Rightarrow>
                  (let s1 = indexSegment\<lparr> seg_filterList := Some (oldFiltersOf frm @ ix_filters ex) \<rparr>;
                       s2 = (case frm of
                               None \<Rightarrow> s1
                             | Some f \<Rightarrow> if truthy (seg_limit f)
                                         then s1\<lparr> seg_limit := seg_limit f \<rparr> else s1);
                       s3 = (case ix_limit ex of
                               None \<Rightarrow> s2
                             | Some l \<Rightarrow> s2\<lparr> seg_limit := Some (lim_limit l) \<rparr>);
                       s4 = (case ix_indexOn ex of
                               None \<Rightarrow> s3
                             | Some w \<Rightarrow> s3\<lparr> seg_weightMeasure := Some (refString w) \<rparr>);
                       s5 = (case frm of
                               None \<Rightarrow> s4
                             | Some f \<Rightarrow> (case seg_sample f of
                                            None \<Rightarrow> s4
                                          | Some smp \<Rightarrow> s4\<lparr> seg_sample := Some smp \<rparr>));
                       s6 = (case ix_sample ex of
                               None \<Rightarrow> s5
                             | Some smp \<Rightarrow> s5\<lparr> seg_sample := Some smp \<rparr>)
                   in (Inr (s6, ex\<lparr> ix_resultFS := rs1 \<rparr>), []))))"

text \<open>Running the properties of a segment in order, as \<open>QOPDesc.getOp\<close> does.\<close>

definition executeAll ::
  "('e \<Rightarrow> QueryProperty \<Rightarrow> 'e logged) \<Rightarrow> QueryProperty list \<Rightarrow> 'e \<Rightarrow> 'e logged" where
  "executeAll execute props ex = forEach execute props ex"

text \<open>
  The \<open>Limit\<close> properties of a list of properties, in order; the diagnostic of the
  index executor; and the limit it holds, as a list.
\<close>

fun limitsOf :: "QueryProperty list \<Rightarrow> Limit list" where
  "limitsOf [] = []"
| "limitsOf (LimitProperty l # ps) = l # limitsOf ps"
| "limitsOf (p # ps) = limitsOf ps"

definition tooManyLimits :: string where
  "tooManyLimits = ''Ignored, too many limit: statements''"

definition pending :: "Limit option \<Rightarrow> Limit list" where
  "pending l = (case l of None \<Rightarrow> [] | Some e \<Rightarrow> [e])"



definition segmentOf :: "(PipeSegment \<times> 'e) logged \<Rightarrow> PipeSegment option" where
  "segmentOf r = (case r of (Inl err, lg) \<Rightarrow> None | (Inr (seg, ex), lg) \<Rightarrow> Some seg)"

section \<open>Example inputs\<close>

text \<open>
  The source \<open>flights\<close> with two columns; the same with the join \<open>carriers\<close>
  and with a turtle; renaming that join and then adding a column.
\<close>

definition column :: "string \<Rightarrow> string \<Rightarrow> FieldTypeDef" where
  "column n t = \<lparr> f_name = n, f_as = None, f_type = t, f_e = None,
      f_expressionType = None, f_code = None, f_timeframe = None, f_location = None \<rparr>"

definition flights :: StructDef where
  "flights = StructDef ''flights'' None ''standardsql''
     [AtomicField (column ''carrier'' ''string''), AtomicField (column ''distance'' ''number'')] None"

definition carrierRef :: FieldName where
  "carrierRef = \<lparr> refString = ''carrier'', fn_location = 7 \<rparr>"

definition carriers :: StructDef where
  "carriers = StructDef ''carriers'' None ''standardsql''
     [AtomicField (column ''code'' ''string'')] None"

definition flightsJoined :: StructDef where
  "flightsJoined = StructDef ''flights'' None ''standardsql''
     [StructField carriers, AtomicField (column ''distance'' ''number'')] None"

definition noFixup :: fixup where
  "noFixup j m s = s"

definition renameThenAdd :: "string + StructDef" where
  "renameThenAdd =
     (case addField_RenameField (new_DynamicSpace flightsJoined)
             \<lparr> newName = ''c2'', oldName = \<lparr> refString = ''carriers'', fn_location = 3 \<rparr>,
               rf_location = 3 \<rparr> of
        Inl err \<Rightarrow> Inl err
      | Inr (lg, sp1) \<Rightarrow>
          (case addFieldDef sp1 (AtomicField (column ''seats'' ''number'')) of
             Inl err \<Rightarrow> Inl err
           | Inr sp2 \<Rightarrow> fst (structDef noFixup sp2)))"


text \<open>
  A source whose fields are created in the order \<open>b\<close>, \<open>by_carrier\<close>, \<open>10\<close>,
  \<open>carriers\<close>, \<open>2\<close>, \<open>a\<close>, and the space of this source after the join
  \<open>airports\<close> was declared in it.  A join fix-up that leaves a mark in the struct it
  resolves: the field \<open>on\<close>.
\<close>

definition numbered :: StructDef where
  "numbered = StructDef ''flights'' None ''standardsql''
     [AtomicField (column ''b'' ''string''),
      TurtleField \<lparr> t_name = ''by_carrier'', t_as = None, t_location = None \<rparr>,
      AtomicField (column ''10'' ''number''),
      StructField carriers,
      AtomicField (column ''2'' ''number''),
      AtomicField (column ''a'' ''string'')] None"

definition airports :: StructDef where
  "airports = StructDef ''airports'' None ''standardsql''
     [AtomicField (column ''code'' ''string'')] None"

definition airportsJoin :: Join where
  "airportsJoin = \<lparr> j_name = \<lparr> refString = ''airports'', fn_location = 5 \<rparr>, j_location = 5,
                     j_structDef = airports \<rparr>"

definition numberedSpace :: DynamicSpace where
  "numberedSpace =
     (case addField_Join (new_DynamicSpace numbered) airportsJoin of
        (Inr sp, lg) \<Rightarrow> sp
      | (Inl err, lg) \<Rightarrow> new_DynamicSpace numbered)"

definition resolvedOn :: fixup where
  "resolvedOn j m s = withFields s (s_fields s @ [AtomicField (column ''on'' ''boolean'')])"

text \<open>
  One choice of the helpers: fragments are composed by concatenation, and
  \<open>mergeFields\<close> keeps the older fields that the newer ones do not redefine,
  followed by the newer ones.  And a \<open>duration.apply\<close> that gives an error value.
\<close>

fun queryFieldName :: "QueryFieldDef \<Rightarrow> string" where
  "queryFieldName (QRef n) = n"
| "queryFieldName (QFilteredAlias a) = asOrName (fa_as a) (fa_name a)"
| "queryFieldName (QField d) = asOrName (f_as d) (f_name d)"
| "queryFieldName (QTurtle t) = asOrName (t_as t) (t_name t)"

definition plainHelpers :: Helpers where
  "plainHelpers =
     \<lparr> compressExpr = (\<lambda>e. e),
       compose = (\<lambda>l op r. l @ [Str op] @ r),
       nullsafeNot = (\<lambda>e op. e),
       inspect = dataType,
       isAtomicFieldType = (\<lambda>t. t \<in> set [''string'', ''number'', ''boolean'', ''date'', ''timestamp'']),
       mergeQueryFields = (\<lambda>older newer. case older of None \<Rightarrow> newer
          | Some old \<Rightarrow> filter (\<lambda>f. queryFieldName f \<notin> set (map queryFieldName newer)) old @ newer),
       mergeFieldDefs = (\<lambda>older newer. case older of None \<Rightarrow> newer
          | Some old \<Rightarrow> filter (\<lambda>f. nameOf f \<notin> set (map nameOf newer)) old @ newer) \<rparr>"

definition noDuration :: durationApply where
  "noDuration d fs op left right = (Inr (errorFor ''duration''), [], fs)"

text \<open>A space that knows the columns \<open>distance\<close> (a number) and \<open>blob\<close> (unsupported).\<close>

definition flightSpace :: FieldSpace where
  "flightSpace = Space (\<lambda>path.
     if path = [''distance''] then \<lparr> lr_error = None,
          lr_found = Some \<lparr> ft_type = ''number'', ft_expressionType = None \<rparr> \<rparr>
     else if path = [''blob''] then \<lparr> lr_error = None,
          lr_found = Some \<lparr> ft_type = ''unsupported'', ft_expressionType = None \<rparr> \<rparr>
     else \<lparr> lr_error = Some (quoted (hd path) @ '' is not defined''), lr_found = None \<rparr>)"

text \<open>
  Two expression nodes: a reference to a name (an error value and a diagnostic when
  the name is not found) and a literal number.
\<close>

definition valueOf :: "string \<Rightarrow> ExpressionType \<Rightarrow> string \<Rightarrow> ExprValue" where
  "valueOf t k txt =
     \<lparr> dataType = t, expressionType = k, evalSpace = Input, val = [Str txt],
       morphic = None, timeframe = None, rawType = None \<rparr>"

definition idReference :: "nat \<Rightarrow> string \<Rightarrow> ExpressionDef" where
  "idReference at n =
     \<lparr> e_location = at,
       e_eval = Lookup [n] (\<lambda>res.
         case lr_found res of
           Some t \<Rightarrow> Return (valueOf (ft_type t)
                        (case ft_expressionType t of None \<Rightarrow> Scalar | Some k \<Rightarrow> k) n)
         | None \<Rightarrow>
             (case lr_error res of
                Some message \<Rightarrow> Log at message (Return (errorFor message))
              | None \<Rightarrow> Return (errorFor ''lookup''))) \<rparr>"

definition numberLiteral :: "nat \<Rightarrow> string \<Rightarrow> ExpressionDef" where
  "numberLiteral at txt =
     \<lparr> e_location = at,
       e_eval = Return ((valueOf ''number'' Scalar txt)\<lparr> evalSpace := Literal \<rparr>) \<rparr>"

definition undefinedValue :: ExprValue where
  "undefinedValue = errorFor (quoted ''nope'' @ '' is not defined'')"

text \<open>
  An aggregate over a name and a comparison with a literal, as compound nodes; the
  properties \<open>top: 10 by sum(distance)\<close> and \<open>top: 10 by distance\<close>; the filters
  \<open>where: sum(distance) > 100\<close> and \<open>having: distance > 100\<close>, marked through the
  setter.
\<close>

definition sumOf :: "nat \<Rightarrow> string \<Rightarrow> ExpressionDef" where
  "sumOf at n =
     \<lparr> e_location = at,
       e_eval = bindE (e_eval (idReference at n))
                  (\<lambda>v. Return (v\<lparr> expressionType := Aggregate, val := [Str ''SUM(''] @ val v @ [Str '')''] \<rparr>)) \<rparr>"

definition greaterThan :: "nat \<Rightarrow> ExpressionDef \<Rightarrow> string \<Rightarrow> ExpressionDef" where
  "greaterThan at e txt =
     \<lparr> e_location = at,
       e_eval = bindE (e_eval e)
                  (\<lambda>v. Return (v\<lparr> dataType := ''boolean'', val := val v @ [Str ''>'', Str txt] \<rparr>)) \<rparr>"

definition topBySum :: Top where
  "topBySum = \<lparr> top_location = 30, top_limit = 10,
                top_by = Some (ByExpression (sumOf 31 ''distance'')) \<rparr>"

definition topByDistance :: Top where
  "topByDistance = \<lparr> top_location = 30, top_limit = 10,
                top_by = Some (ByExpression (idReference 31 ''distance'')) \<rparr>"

definition whereSum :: Filter where
  "whereSum = set_having (new_Filter 40
       [\<lparr> fe_location = 41, fe_expr = greaterThan 42 (sumOf 43 ''distance'') ''100'',
          fe_exprSrc = ''sum(distance) > 100'' \<rparr>]) False"

definition havingDistance :: Filter where
  "havingDistance = set_having (new_Filter 40
       [\<lparr> fe_location = 41, fe_expr = greaterThan 42 (idReference 43 ''distance'') ''100'',
          fe_exprSrc = ''distance > 100'' \<rparr>]) True"

text \<open>
  The declaration \<open>dimension: x is x + 1\<close>.  The node of \<open>x + 1\<close> evaluates
  \<open>x\<close>, then \<open>1\<close>, and returns what the dispatcher returns for them.
\<close>

definition selfPlusOne :: ExpressionDef where
  "selfPlusOne =
     \<lparr> e_location = 20,
       e_eval = bindE (e_eval (idReference 21 ''x'')) (\<lambda>lhs.
                bindE (e_eval (numberLiteral 22 ''1'')) (\<lambda>rhs.
                  Return (cascading ''number'' lhs rhs))) \<rparr>"

definition xDecl :: FieldDeclaration where
  "xDecl = \<lparr> fd_location = 20, expr = selfPlusOne, defineName = ''x'', exprSrc = Some ''x + 1'' \<rparr>"

definition circularX :: ExprValue where
  "circularX = errorFor (circularMessage ''x'')"

definition literalOne :: ExprValue where
  "literalOne = (valueOf ''number'' Scalar ''1'')\<lparr> evalSpace := Literal \<rparr>"

text \<open>Two limits in an index segment over \<open>flights\<close>, and the executor after both.\<close>

definition twoLimits :: "QueryProperty list" where
  "twoLimits = [LimitProperty \<lparr> lim_location = 61, lim_limit = 10 \<rparr>,
                LimitProperty \<lparr> lim_location = 62, lim_limit = 20 \<rparr>]"

definition afterTwoLimits :: IndexExecutor where
  "afterTwoLimits =
     (new_IndexExecutor flights flightSpace)\<lparr> ix_limit := Some \<lparr> lim_location = 62, lim_limit = 20 \<rparr> \<rparr>"


















definition shortHaul :: FilterExpression where
  "shortHaul = \<lparr> fx_code = ''distance < 500'', fx_expression = [Str ''distance<500''],
                 fx_expressionType = Scalar \<rparr>"

definition longHaul :: FilterExpression where
  "longHaul = \<lparr> fx_code = ''distance > 100'', fx_expression = [Str ''distance>100''],
                fx_expressionType = Scalar \<rparr>"

definition existing :: PipeSegment where
  "existing = (newSegment Reduce [QRef ''carrier''])
       \<lparr> seg_orderBy := Some [\<lparr> ob_field = Inr ''carrier'', ob_dir = Some Desc \<rparr>],
         seg_limit := Some 10, seg_filterList := Some [shortHaul] \<rparr>"

definition refiningExecutor :: ReduceExecutor where
  "refiningExecutor = (new_ReduceExecutor flights flightSpace)\<lparr> filters := [longHaul] \<rparr>"

section \<open>Properties\<close>

subsection \<open>The field map\<close>

lemma assign_keys:
  "fst ` set (assign m k v) = insert k (fst ` set m)"
  by (induction m k v rule: assign.induct) auto

lemma assign_distinct:
  "distinct (map fst m) \<Longrightarrow> distinct (map fst (assign m k v))"
proof (induction m k v rule: assign.induct)
  case (1 k v)
  then show ?case by simp
next
  case (2 k' v' m k v)
  then show ?case by (auto simp: assign_keys)
qed

lemma assign_fresh:
  "k \<notin> fst ` set m \<Longrightarrow> assign m k v = m @ [(k, v)]"
  by (induction m k v rule: assign.induct) auto

lemma map_set_keys:
  "fst ` set (map_set m k v) = (if k = ''__proto__'' then fst ` set m else insert k (fst ` set m))"
  by (simp add: map_set_def assign_keys)

lemma map_set_distinct:
  "distinct (map fst m) \<Longrightarrow> distinct (map fst (map_set m k v))"
  by (simp add: map_set_def assign_distinct)

lemma map_set_fresh:
  "k \<notin> fst ` set m \<Longrightarrow> k \<noteq> ''__proto__'' \<Longrightarrow> map_set m k v = m @ [(k, v)]"
  by (simp add: map_set_def assign_fresh)

lemma addFieldEntries_proto:
  "''__proto__'' \<notin> fst ` set m \<Longrightarrow> ''__proto__'' \<notin> fst ` set (addFieldEntries m fs)"
  by (induction m fs rule: addFieldEntries.induct) (auto simp: map_set_keys)

lemma addParamEntries_proto:
  "''__proto__'' \<notin> fst ` set m \<Longrightarrow> addParamEntries sn m ps = Inr m' \<Longrightarrow>
     ''__proto__'' \<notin> fst ` set m'"
  by (induction sn m ps rule: addParamEntries.induct)
     (auto simp: map_set_keys split: if_splits)

lemma buildMap_proto:
  assumes "buildMap s = Inr m"
  shows "''__proto__'' \<notin> fst ` set m"
proof -
  have d: "''__proto__'' \<notin> fst ` set (addFieldEntries [] (s_fields s))"
    by (rule addFieldEntries_proto) simp
  show ?thesis
    using assms d unfolding buildMap_def Let_def
    by (auto split: option.splits dest: addParamEntries_proto)
qed

lemma ownEntries_set: "set (ownEntries m) = set m"
  by (auto simp: ownEntries_def)

lemma ownEntries_filter: "ownEntries (filter P m) = filter P (ownEntries m)"
  by (simp add: ownEntries_def filter_sort conj_commute)

lemma ownEntries_idem: "ownEntries (ownEntries m) = ownEntries m"
proof -
  let ?I = "\<lambda>(k, v). isArrayIndex k" and ?f = "\<lambda>(k, v). numericValue k"
  let ?N = "\<lambda>(k, v). \<not> isArrayIndex k"
  have a: "filter ?I (sort_key ?f (filter ?I m)) = sort_key ?f (filter ?I m)"
    by (simp add: filter_sort)
  have b: "filter ?N (sort_key ?f (filter ?I m)) = []"
    by (auto simp: filter_empty_conv)
  have c: "filter ?I (filter ?N m) = []"
    by (auto simp: filter_empty_conv)
  have c': "filter ?N (filter ?N m) = filter ?N m"
    by simp
  have d: "sort_key ?f (sort_key ?f (filter ?I m)) = sort_key ?f (filter ?I m)"
    by (rule sort_key_id_if_sorted) simp
  have "ownEntries (ownEntries m) =
          sort_key ?f (filter ?I (sort_key ?f (filter ?I m) @ filter ?N m))
            @ filter ?N (sort_key ?f (filter ?I m) @ filter ?N m)"
    by (simp only: ownEntries_def)
  also have "\<dots> = sort_key ?f (sort_key ?f (filter ?I m)) @ filter ?N m"
    by (simp only: filter_append a b c c' append_Nil2 append_Nil)
  also have "\<dots> = ownEntries m"
    by (simp only: d ownEntries_def)
  finally show ?thesis .
qed

lemma ownEntries_distinct:
  assumes "distinct (map fst m)"
  shows "distinct (map fst (ownEntries m))"
proof -
  from assms have d: "distinct m" and i: "inj_on fst (set m)" by (simp_all add: distinct_map)
  have "distinct (ownEntries m)" using d by (auto simp: ownEntries_def)
  then show ?thesis using i by (simp add: distinct_map ownEntries_set)
qed

lemma addFieldEntries_distinct:
  "distinct (map fst m) \<Longrightarrow> distinct (map fst (addFieldEntries m fs))"
  by (induction m fs rule: addFieldEntries.induct) (auto simp: map_set_distinct)

lemma addParamEntries_distinct:
  "distinct (map fst m) \<Longrightarrow> addParamEntries sn m ps = Inr m' \<Longrightarrow> distinct (map fst m')"
  by (induction sn m ps rule: addParamEntries.induct)
     (auto simp: map_set_distinct split: if_splits)

lemma buildMap_distinct:
  assumes "buildMap s = Inr m"
  shows "distinct (map fst m)"
proof -
  have d: "distinct (map fst (addFieldEntries [] (s_fields s)))"
    by (rule addFieldEntries_distinct) simp
  show ?thesis
    using assms d unfolding buildMap_def Let_def
    by (auto split: option.splits dest: addParamEntries_distinct)
qed

subsection \<open>Accept and except edits\<close>

lemma filterEntries_append:
  assumes "memoMap sp = Some m" "final sp = None"
    and "distinct (map fst old)" "fst ` set old \<inter> fst ` set m = {}"
    and "''__proto__'' \<notin> fst ` set old"
  shows "filterEntries chs old sp =
           Inr (sp\<lparr> memoMap := Some (m @ filter (\<lambda>(n, v).
                  (find (\<lambda>f. refString f = n) (refs chs) \<noteq> None) = (edit chs = Accept)) old) \<rparr>)"
  using assms
proof (induction old arbitrary: sp m)
  case Nil
  then show ?case by simp
next
  case (Cons a old)
  obtain n v where a: "a = (n, v)" by (cases a)
  show ?case
  proof (cases "(find (\<lambda>f. refString f = n) (refs chs) \<noteq> None) = (edit chs = Accept)")
    case True
    have fresh: "n \<notin> fst ` set m" "n \<noteq> ''__proto__''" using Cons.prems a by auto
    have se: "setEntry sp n v = Inr (sp\<lparr> memoMap := Some (m @ [(n, v)]) \<rparr>)"
      using Cons.prems(1,2) fresh
      by (simp add: setEntry_def StaticSpace_setEntry_def getMap_def map_set_fresh)
    have "filterEntries chs old (sp\<lparr> memoMap := Some (m @ [(n, v)]) \<rparr>) =
            Inr (sp\<lparr> memoMap := Some (m @ [(n, v)]) \<rparr>\<lparr> memoMap := Some ((m @ [(n, v)]) @ filter (\<lambda>(n, v).
                  (find (\<lambda>f. refString f = n) (refs chs) \<noteq> None) = (edit chs = Accept)) old) \<rparr>)"
      using Cons.prems a by (intro Cons.IH) auto
    then show ?thesis using True a se by simp
  next
    case False
    have "filterEntries chs old sp =
            Inr (sp\<lparr> memoMap := Some (m @ filter (\<lambda>(n, v).
                  (find (\<lambda>f. refString f = n) (refs chs) \<noteq> None) = (edit chs = Accept)) old) \<rparr>)"
      using Cons.prems a by (intro Cons.IH) auto
    then show ?thesis using False a by simp
  qed
qed

lemma find_refString:
  "(find (\<lambda>f. refString f = n) L \<noteq> None) = (n \<in> refString ` set L)"
  by (induction L) auto

lemma find_refString_ex:
  "(\<exists>y. find (\<lambda>f. refString f = n) L = Some y) = (n \<in> refString ` set L)"
  using find_refString [of n L] by simp

text \<open>
  Claim C7.  Let \<open>es\<close> be the entries of the space built from a struct \<open>S\<close> (its
  fields and parameters, by name).  Then \<open>filteredFrom S\<close> with an \<open>accept\<close> edit
  of the names \<open>L\<close> yields a space whose entries are exactly the entries of \<open>es\<close>
  with a name in \<open>L\<close>, in the same order; with an \<open>except\<close> edit, exactly the
  entries with a name not in \<open>L\<close>; and with no edit every entry is kept.
\<close>

theorem filteredFrom_entries:
  assumes "entriesOf (new_DynamicSpace S) = Some es"
  shows "entriesOfResult (filteredFrom S (Some \<lparr> edit = Accept, refs = L \<rparr>)) =
           Some (filter (\<lambda>(n, v). n \<in> refString ` set L) es)
       \<and> entriesOfResult (filteredFrom S (Some \<lparr> edit = Except, refs = L \<rparr>)) =
           Some (filter (\<lambda>(n, v). n \<notin> refString ` set L) es)
       \<and> entriesOfResult (filteredFrom S None) = Some es"
proof -
  obtain m where bm: "buildMap S = Inr m" and es: "es = ownEntries m"
    using assms
    by (auto simp: entriesOf_def entries_def getMap_def new_DynamicSpace_def
             split: sum.splits)
  have dist: "distinct (map fst es)"
    unfolding es by (rule ownEntries_distinct [OF buildMap_distinct [OF bm]])
  have np: "''__proto__'' \<notin> fst ` set es"
    unfolding es using buildMap_proto [OF bm] by (simp add: ownEntries_set)
  have own: "ownEntries (filter P es) = filter P es" for P
    unfolding es by (simp add: ownEntries_filter ownEntries_idem)
  let ?sp = "dropEntries ((new_DynamicSpace S)\<lparr> memoMap := Some m \<rparr>)"
  have en: "entries (new_DynamicSpace S) = Inr (es, (new_DynamicSpace S)\<lparr> memoMap := Some m \<rparr>)"
    using bm es by (simp add: entries_def getMap_def new_DynamicSpace_def)
  have loop: "filterEntries chs es ?sp =
      Inr (?sp\<lparr> memoMap := Some ([] @ filter (\<lambda>(n, v).
             (find (\<lambda>f. refString f = n) (refs chs) \<noteq> None) = (edit chs = Accept)) es) \<rparr>)" for chs
    by (rule filterEntries_append) (simp_all add: dropEntries_def new_DynamicSpace_def dist np)
  have res: "entriesOfResult (filteredFrom S (Some chs)) =
      Some (filter (\<lambda>(n, v). (n \<in> refString ` set (refs chs)) = (edit chs = Accept)) es)" for chs
  proof -
    have "filteredFrom S (Some chs) =
        Inr (?sp\<lparr> memoMap := Some ([] @ filter (\<lambda>(n, v).
             (find (\<lambda>f. refString f = n) (refs chs) \<noteq> None) = (edit chs = Accept)) es) \<rparr>)"
      unfolding filteredFrom_def Let_def by (simp add: en loop)
    then show ?thesis
      by (simp add: entriesOfResult_def entriesOf_def entries_def getMap_def find_refString_ex own)
  qed
  have acc: "entriesOfResult (filteredFrom S (Some \<lparr> edit = Accept, refs = L \<rparr>)) =
           Some (filter (\<lambda>(n, v). n \<in> refString ` set L) es)"
    using res [of "\<lparr> edit = Accept, refs = L \<rparr>"] by simp
  have exc: "entriesOfResult (filteredFrom S (Some \<lparr> edit = Except, refs = L \<rparr>)) =
           Some (filter (\<lambda>(n, v). n \<notin> refString ` set L) es)"
    using res [of "\<lparr> edit = Except, refs = L \<rparr>"] by simp
  have none: "entriesOfResult (filteredFrom S None) = Some es"
    using assms by (simp add: filteredFrom_def entriesOfResult_def)
  show ?thesis using acc exc none by simp
qed

theorem filteredFrom_entries_witness:
  "entriesOf (new_DynamicSpace flights) =
     Some [(''carrier'', ColumnSpaceField (column ''carrier'' ''string'')),
           (''distance'', ColumnSpaceField (column ''distance'' ''number''))]
   \<and> entriesOfResult (filteredFrom flights (Some \<lparr> edit = Accept, refs = [carrierRef] \<rparr>)) =
       Some [(''carrier'', ColumnSpaceField (column ''carrier'' ''string''))]
   \<and> entriesOfResult (filteredFrom flights (Some \<lparr> edit = Except, refs = [carrierRef] \<rparr>)) =
       Some [(''distance'', ColumnSpaceField (column ''distance'' ''number''))]
   \<and> entriesOfResult (filteredFrom flights None) =
       Some [(''carrier'', ColumnSpaceField (column ''carrier'' ''string'')),
             (''distance'', ColumnSpaceField (column ''distance'' ''number''))]"
proof -
  have h: "entriesOf (new_DynamicSpace flights) =
     Some [(''carrier'', ColumnSpaceField (column ''carrier'' ''string'')),
           (''distance'', ColumnSpaceField (column ''distance'' ''number''))]"
    by code_simp
  show ?thesis
    using filteredFrom_entries [OF h, of "[carrierRef]"] h
    by (simp add: carrierRef_def)
qed

subsection \<open>Finalising a dynamic space\<close>



lemma emitFields_spec:
  "emitFields xs out fixups = Inr (out', fixups') \<Longrightarrow>
     out' = out @ emitAll xs \<and> fixups' = fixups @ joinFixups (length out) xs"
proof (induction xs out fixups rule: emitFields.induct)
  case (1 out fixups)
  then show ?case by (simp add: emitAll_def)
next
  case (2 fieldName j rest out fixups)
  then show ?case by (auto simp: emitAll_def Let_def split: if_splits)
qed (auto simp: emitAll_def split: option.splits)

lemma classify_spec:
  "c_fields (classify m c) = c_fields c @ plainEntries m"
  "c_joins (classify m c) = c_joins c @ joinEntries m"
  "c_turtles (classify m c) = c_turtles c @ turtleEntries m"
  by (induction m c rule: classify.induct;
      auto simp: plainEntries_def joinEntries_def turtleEntries_def isSpaceField_def split: option.splits)+

lemma fixupField_kind: "fieldKind (fixupField fx m j fd) = fieldKind fd"
  by (cases fd) auto

lemma fixupJoins_kind: "map fieldKind (fixupJoins fx m fixups out) = map fieldKind out"
proof (induction fx m fixups out rule: fixupJoins.induct)
  case (1 fx m out)
  then show ?case by simp
next
  case (2 fx m j i rest out)
  then show ?case by (simp add: map_update fixupField_kind list_update_same_conv)
qed

lemma emitAll_append: "emitAll (xs @ ys) = emitAll xs @ emitAll ys"
  by (simp add: emitAll_def)

lemma emitAll_Cons: "emitAll (x # xs) = emitOne x @ emitAll xs"
  by (simp add: emitAll_def)

lemma joinFixups_append:
  "joinFixups i (xs @ ys) = joinFixups i xs @ joinFixups (i + length (emitAll xs)) ys"
  by (induction i xs rule: joinFixups.induct) (auto simp: emitAll_Cons emitAll_def add.assoc)

lemma joinFixups_none:
  "\<forall>(n, e) \<in> set xs. \<not> isStructSpaceField e \<Longrightarrow> joinFixups i xs = []"
  by (induction i xs rule: joinFixups.induct) auto

lemma joinFixups_groups:
  "joinFixups 0 (plainEntries es @ joinEntries es @ turtleEntries es) =
     joinFixups (length (emitAll (plainEntries es))) (joinEntries es)"
proof -
  have p: "joinFixups i (plainEntries es) = []" for i
    by (rule joinFixups_none) (auto simp: plainEntries_def)
  have t: "joinFixups i (turtleEntries es) = []" for i
    by (rule joinFixups_none) (auto simp: turtleEntries_def)
  show ?thesis by (simp add: joinFixups_append p t)
qed

lemma joinFixups_index:
  "(j, i) \<in> set (joinFixups k xs) \<Longrightarrow>
     k \<le> i \<and> i < k + length (emitAll xs) \<and> emitAll xs ! (i - k) = StructField (j_structDef j)"
proof (induction k xs rule: joinFixups.induct)
  case (1 i)
  then show ?case by simp
next
  case (2 k n j' rest)
  show ?case
  proof (cases "isErrorStructDef (j_structDef j')")
    case True
    then show ?thesis using 2 by (simp add: emitAll_Cons)
  next
    case False
    show ?thesis
    proof (cases "(j, i) = (j', k)")
      case True
      then show ?thesis using False by (simp add: emitAll_Cons)
    next
      case ne: False
      then have "(j, i) \<in> set (joinFixups (Suc k) rest)" using 2(3) False by auto
      from 2(2) [OF False this] show ?thesis
        using False by (auto simp: emitAll_Cons Suc_diff_le)
    qed
  qed
qed (auto simp: emitAll_Cons nth_append split: option.splits)

lemma entries_of_theMap:
  assumes "theMap sp = Inr m"
  shows "\<exists>sp'. entries (sp\<lparr> final := X \<rparr>) = Inr (ownEntries m, sp') \<and> heldMap sp' = m
            \<and> final sp' = X \<and> fromStruct sp' = fromStruct sp"
  using assms
  by (auto simp: theMap_def entries_def getMap_def heldMap_def split: sum.splits option.splits)

text \<open>
  Claim C5, as amended.  When a space that is not yet final is finalised and
  \<open>structDef\<close> returns, the fields of the result are emitted in three groups, each in
  the order in which \<open>Object.entries\<close> lists the entries (the names that are array
  indices first, in ascending numeric order, then the other names in the order of their
  creation): first the definitions of the entries that are neither struct entries nor
  query entries (columns, expression fields and renamed fields, whatever the renamed
  field is), then the structs of the struct and join entries (a join whose struct is
  the error sentinel is left out), then the turtles of the query entries.  Only after
  all of them are emitted, a second pass applies the join fix-up, in order, to the
  struct of each join that was declared in this space and emitted in the second group
  (never to a renamed join, which belongs to the first group, and never to a struct of
  the source); it finds each of these structs at its position in the second group, and
  it keeps the position and the kind of every field.
\<close>

theorem structDef_field_order:
  assumes "final sp = None" and "theMap sp = Inr m" and "es = ownEntries m"
    and "structDef fx sp = (Inr sd, sp1)"
  shows "s_fields sd =
           fixupJoins fx m (joinFixups (length (emitAll (plainEntries es))) (joinEntries es))
             (emitAll (plainEntries es) @ emitAll (joinEntries es) @ emitAll (turtleEntries es))
       \<and> map fieldKind (s_fields sd) =
           map fieldKind (emitAll (plainEntries es) @ emitAll (joinEntries es) @ emitAll (turtleEntries es))
       \<and> (\<forall>(j, i) \<in> set (joinFixups (length (emitAll (plainEntries es))) (joinEntries es)).
             length (emitAll (plainEntries es)) \<le> i
             \<and> i < length (emitAll (plainEntries es)) + length (emitAll (joinEntries es))
             \<and> (emitAll (plainEntries es) @ emitAll (joinEntries es) @ emitAll (turtleEntries es)) ! i =
                 StructField (j_structDef j))"
proof -
  let ?R = "plainEntries es @ joinEntries es @ turtleEntries es"
  let ?F = "joinFixups (length (emitAll (plainEntries es))) (joinEntries es)"
  obtain sp' where en: "entries (sp\<lparr> final := Some (withFields (fromStruct sp) []) \<rparr>) = Inr (es, sp')"
      and hm: "heldMap sp' = m"
    using entries_of_theMap [OF assms(2)] assms(3) by blast
  have eq0: "s_fields sd = fixupJoins fx m (joinFixups 0 ?R) (emitAll ?R)"
    using assms(1,4) hm unfolding structDef_def Let_def en
    by (auto simp: classify_spec withFields_def withParameters_def
             dest!: emitFields_spec split: sum.splits prod.splits if_splits)
  have eq: "s_fields sd = fixupJoins fx m ?F (emitAll ?R)"
    using eq0 by (simp only: joinFixups_groups)
  have idx: "length (emitAll (plainEntries es)) \<le> i
             \<and> i < length (emitAll (plainEntries es)) + length (emitAll (joinEntries es))
             \<and> emitAll ?R ! i = StructField (j_structDef j)" if "(j, i) \<in> set ?F" for j i
  proof -
    from joinFixups_index [OF that]
    have a: "length (emitAll (plainEntries es)) \<le> i"
      and b: "i < length (emitAll (plainEntries es)) + length (emitAll (joinEntries es))"
      and c: "emitAll (joinEntries es) ! (i - length (emitAll (plainEntries es))) =
                StructField (j_structDef j)"
      by simp_all
    have lt: "i - length (emitAll (plainEntries es)) < length (emitAll (joinEntries es))"
      using a b by arith
    have "emitAll ?R ! i = emitAll (joinEntries es) ! (i - length (emitAll (plainEntries es)))"
      using a lt by (simp add: emitAll_append nth_append)
    then show ?thesis using a b c by simp
  qed
  show ?thesis
    using eq idx by (auto simp: fixupJoins_kind emitAll_append)
qed

theorem structDef_field_order_witness:
  "final numberedSpace = None
   \<and> theMap numberedSpace =
       Inr [(''b'', ColumnSpaceField (column ''b'' ''string'')),
            (''by_carrier'', QueryFieldStruct \<lparr> t_name = ''by_carrier'', t_as = None, t_location = None \<rparr>),
            (''10'', ColumnSpaceField (column ''10'' ''number'')),
            (''carriers'', StructSpaceField carriers),
            (''2'', ColumnSpaceField (column ''2'' ''number'')),
            (''a'', ColumnSpaceField (column ''a'' ''string'')),
            (''airports'', JoinSpaceField airportsJoin)]
   \<and> fst (structDef resolvedOn numberedSpace) =
       Inr (withFields numbered
         [AtomicField (column ''2'' ''number''), AtomicField (column ''10'' ''number''),
          AtomicField (column ''b'' ''string''), AtomicField (column ''a'' ''string''),
          StructField carriers,
          StructField (withFields airports
            [AtomicField (column ''code'' ''string''), AtomicField (column ''on'' ''boolean'')]),
          TurtleField \<lparr> t_name = ''by_carrier'', t_as = None, t_location = None \<rparr>])
   \<and> map fieldKind
         [AtomicField (column ''2'' ''number''), AtomicField (column ''10'' ''number''),
          AtomicField (column ''b'' ''string''), AtomicField (column ''a'' ''string''),
          StructField carriers,
          StructField (withFields airports
            [AtomicField (column ''code'' ''string''), AtomicField (column ''on'' ''boolean'')]),
          TurtleField \<lparr> t_name = ''by_carrier'', t_as = None, t_location = None \<rparr>] =
       [0, 0, 0, 0, 1, 1, 2]"
proof -
  let ?m = "[(''b'', ColumnSpaceField (column ''b'' ''string'')),
            (''by_carrier'', QueryFieldStruct \<lparr> t_name = ''by_carrier'', t_as = None, t_location = None \<rparr>),
            (''10'', ColumnSpaceField (column ''10'' ''number'')),
            (''carriers'', StructSpaceField carriers),
            (''2'', ColumnSpaceField (column ''2'' ''number'')),
            (''a'', ColumnSpaceField (column ''a'' ''string'')),
            (''airports'', JoinSpaceField airportsJoin)]"
  let ?es = "[(''2'', ColumnSpaceField (column ''2'' ''number'')),
            (''10'', ColumnSpaceField (column ''10'' ''number'')),
            (''b'', ColumnSpaceField (column ''b'' ''string'')),
            (''by_carrier'', QueryFieldStruct \<lparr> t_name = ''by_carrier'', t_as = None, t_location = None \<rparr>),
            (''carriers'', StructSpaceField carriers),
            (''a'', ColumnSpaceField (column ''a'' ''string'')),
            (''airports'', JoinSpaceField airportsJoin)]"
  let ?fs = "[AtomicField (column ''2'' ''number''), AtomicField (column ''10'' ''number''),
          AtomicField (column ''b'' ''string''), AtomicField (column ''a'' ''string''),
          StructField carriers,
          StructField (withFields airports
            [AtomicField (column ''code'' ''string''), AtomicField (column ''on'' ''boolean'')]),
          TurtleField \<lparr> t_name = ''by_carrier'', t_as = None, t_location = None \<rparr>]"
  have h1: "final numberedSpace = None" by code_simp
  have h2: "theMap numberedSpace = Inr ?m" by code_simp
  have h3: "?es = ownEntries ?m" by code_simp
  have h: "fst (structDef resolvedOn numberedSpace) = Inr (withFields numbered ?fs)" by code_simp
  then have h4: "structDef resolvedOn numberedSpace =
      (Inr (withFields numbered ?fs), snd (structDef resolvedOn numberedSpace))"
    by (simp add: prod_eq_iff)
  have k: "map fieldKind ?fs = [0, 0, 0, 0, 1, 1, 2]" by simp
  show ?thesis
    using structDef_field_order [OF h1 h2 h3 h4] h1 h2 h k
    by simp
qed

text \<open>
  Claim C5, as stated, fails: a renamed join is a \<open>RenameSpaceField\<close>, which is sorted
  into the first group, so its struct is emitted among the atomic fields.  Renaming the
  join \<open>carriers\<close> of \<open>flightsJoined\<close> to \<open>c2\<close> and then adding the column
  \<open>seats\<close> gives the fields \<open>distance\<close>, the struct \<open>c2\<close>, \<open>seats\<close>.
  Nor are the atomic fields emitted in insertion order when a name is an array index:
  the source \<open>numbered\<close> lists its atomic fields as \<open>b\<close>, \<open>10\<close>, \<open>2\<close>,
  \<open>a\<close>, and they are emitted as \<open>2\<close>, \<open>10\<close>, \<open>b\<close>, \<open>a\<close>.
\<close>

theorem structDef_renamed_join_counterexample:
  "renameThenAdd = Inr (StructDef ''flights'' None ''standardsql''
      [AtomicField (column ''distance'' ''number''),
       StructField (StructDef ''carriers'' (Some ''c2'') ''standardsql''
                      [AtomicField (column ''code'' ''string'')] None),
       AtomicField (column ''seats'' ''number'')] None)
   \<and> map fieldKind (case renameThenAdd of Inl err \<Rightarrow> [] | Inr sd \<Rightarrow> s_fields sd) = [0, 1, 0]
   \<and> \<not> sorted (map fieldKind (case renameThenAdd of Inl err \<Rightarrow> [] | Inr sd \<Rightarrow> s_fields sd))
   \<and> map nameOf (s_fields numbered) = [''b'', ''by_carrier'', ''10'', ''carriers'', ''2'', ''a'']
   \<and> map nameOf (case fst (structDef noFixup (new_DynamicSpace numbered)) of
                    Inl err \<Rightarrow> [] | Inr sd \<Rightarrow> s_fields sd) =
       [''2'', ''10'', ''b'', ''a'', ''carriers'', ''by_carrier'']"
  by code_simp











subsection \<open>The error cascade of the binary dispatcher\<close>

lemma maxExpressionType_Scalar: "maxExpressionType Scalar e = e"
  by (cases e) (simp_all add: maxExpressionType_def)

lemma maxOfExpressionTypes_pair: "maxOfExpressionTypes [a, b] = maxExpressionType a b"
  by (simp add: maxOfExpressionTypes_def maxExpressionType_Scalar)

lemma errorCascade_pair:
  "dataType lhs = ''error'' \<or> dataType rhs = ''error'' \<Longrightarrow>
     errorCascade dt [lhs, rhs] = Some (cascading dt lhs rhs)"
  by (auto simp: errorCascade_def cascading_def maxOfExpressionTypes_pair)

lemma withOperands_eval:
  assumes "getExpression fs left = (Inr lhs, lg1, fs1)"
    and "getExpression fs1 right = (Inr rhs, lg2, fs2)"
  shows "withOperands fs left right body =
           (case body lhs rhs fs2 of (r, lg, fs3) \<Rightarrow> (r, lg1 @ lg2 @ lg, fs3))"
  using assms by (simp add: withOperands_def andThen_def split: prod.splits)

lemma unsupportError_None:
  "dataType lhs \<noteq> ''unsupported'' \<Longrightarrow> dataType rhs \<noteq> ''unsupported'' \<Longrightarrow>
     unsupportError l lhs r rhs = None"
  by (simp add: unsupportError_def)

lemma ops_disjoint:
  "isEquality op \<Longrightarrow> \<not> isComparison op"
  "oneOf op [''+'', ''-'', ''*'', ''%'', ''/''] \<Longrightarrow> \<not> isEquality op \<and> \<not> isComparison op"
  by (auto simp: isEquality_def isComparison_def oneOf_def)

text \<open>
  Claim C1, as amended.  Let both operands of a binary operator of one of the five
  classes (equality, comparison, additive, multiplicative, division) evaluate, at
  least one of them to a value of type \<open>error\<close>, and, for the additive operators and
  the division, neither to a value of type \<open>unsupported\<close>.  Then the dispatcher
  returns the cascading-error value: its \<open>expressionType\<close> is the maximum of the
  operands' expression types, and its \<open>dataType\<close> is the result type of the operator
  class: \<open>boolean\<close> for equality and comparison, \<open>number\<close> for the
  multiplicative operators, the division and an additive operator whose left operand
  is not a time, and \<open>error\<close> only for an additive operator whose left operand is a
  time.  The log holds the diagnostics of the two operand evaluations and nothing else.
\<close>

theorem applyBinary_error_cascade:
  assumes l: "getExpression fs left = (Inr lhs, lg1, fs1)"
    and r: "getExpression fs1 right = (Inr rhs, lg2, fs2)"
    and err: "dataType lhs = ''error'' \<or> dataType rhs = ''error''"
    and op: "isEquality op \<or> isComparison op \<or> oneOf op [''+'', ''-'', ''*'', ''%'', ''/'']"
    and uns: "oneOf op [''+'', ''-'', ''/''] \<longrightarrow>
                dataType lhs \<noteq> ''unsupported'' \<and> dataType rhs \<noteq> ''unsupported''"
  shows "applyBinary H dapply fs left op right =
           (Inr (cascading
                   (if isEquality op \<or> isComparison op then ''boolean''
                    else if oneOf op [''+'', ''-''] \<and> isTimeFieldType (dataType lhs) then ''error''
                    else ''number'')
                   lhs rhs),
            lg1 @ lg2, fs2)"
proof -
  note ec = errorCascade_pair [OF err]
  consider (eq) "isEquality op" | (cmp) "\<not> isEquality op" "isComparison op"
    | (add) "\<not> isEquality op" "\<not> isComparison op" "oneOf op [''+'', ''-'']"
    | (mul) "\<not> isEquality op" "\<not> isComparison op" "\<not> oneOf op [''+'', ''-'']" "oneOf op [''*'', ''%'']"
    | (dv) "\<not> isEquality op" "\<not> isComparison op" "\<not> oneOf op [''+'', ''-'']"
           "\<not> oneOf op [''*'', ''%'']" "oneOf op [''/'']"
    using op by (auto simp: oneOf_def)
  then show ?thesis
  proof cases
    case eq
    then show ?thesis
      by (simp add: applyBinary_def equality_def withOperands_eval [OF l r] equalityOf_def ec)
  next
    case cmp
    then show ?thesis
      by (simp add: applyBinary_def compare_def withOperands_eval [OF l r] compareOf_def ec)
  next
    case add
    then have "dataType lhs \<noteq> ''unsupported''" "dataType rhs \<noteq> ''unsupported''"
      using uns by (auto simp: oneOf_def)
    then have nu: "unsupportError left lhs right rhs = None"
      by (rule unsupportError_None)
    show ?thesis using add
      by (simp add: applyBinary_def delta_def withOperands_eval [OF l r] nu ec Let_def)
  next
    case mul
    then have "\<not> oneOf op [''+'', ''-'']" by simp
    with mul show ?thesis
      by (simp add: applyBinary_def numeric_def withOperands_eval [OF l r] numericOf_def ec)
  next
    case dv
    then have "dataType lhs \<noteq> ''unsupported''" "dataType rhs \<noteq> ''unsupported''"
      using uns by (auto simp: oneOf_def)
    then have nu: "unsupportError left lhs right rhs = None"
      by (rule unsupportError_None)
    show ?thesis using dv
      by (simp add: applyBinary_def divide_def withOperands_eval [OF l r] nu ec)
  qed
qed

lemma idReference_location: "e_location (idReference at n) = at"
  by (simp add: idReference_def)

lemma ev_undefined:
  "getExpression flightSpace (idReference 11 ''nope'') =
     (Inr undefinedValue, [(11, quoted ''nope'' @ '' is not defined'')], flightSpace)"
  by (simp add: getExpression_def idReference_def flightSpace_def undefinedValue_def)

lemma ev_two:
  "getExpression flightSpace (numberLiteral 12 ''2'') =
     (Inr ((valueOf ''number'' Scalar ''2'')\<lparr> evalSpace := Literal \<rparr>), [], flightSpace)"
  by (simp add: getExpression_def numberLiteral_def)

lemma ev_blob:
  "getExpression flightSpace (idReference 13 ''blob'') =
     (Inr (valueOf ''unsupported'' Scalar ''blob''), [], flightSpace)"
  by (simp add: getExpression_def idReference_def flightSpace_def)

theorem applyBinary_error_cascade_witness:
  "getExpression flightSpace (idReference 11 ''nope'') =
     (Inr undefinedValue, [(11, quoted ''nope'' @ '' is not defined'')], flightSpace)
   \<and> dataType undefinedValue = ''error''
   \<and> applyBinary plainHelpers noDuration flightSpace (idReference 11 ''nope'') ''+'' (numberLiteral 12 ''2'') =
       (Inr (cascading ''number'' undefinedValue ((valueOf ''number'' Scalar ''2'')\<lparr> evalSpace := Literal \<rparr>)),
        [(11, quoted ''nope'' @ '' is not defined'')], flightSpace)"
proof -
  have err: "dataType undefinedValue = ''error'' \<or>
             dataType ((valueOf ''number'' Scalar ''2'')\<lparr> evalSpace := Literal \<rparr>) = ''error''"
    by (simp add: undefinedValue_def errorFor_def)
  have op: "isEquality ''+'' \<or> isComparison ''+'' \<or> oneOf ''+'' [''+'', ''-'', ''*'', ''%'', ''/'']"
    by (simp add: oneOf_def)
  have uns: "oneOf ''+'' [''+'', ''-'', ''/''] \<longrightarrow>
      dataType undefinedValue \<noteq> ''unsupported'' \<and>
      dataType ((valueOf ''number'' Scalar ''2'')\<lparr> evalSpace := Literal \<rparr>) \<noteq> ''unsupported''"
    by (simp add: undefinedValue_def errorFor_def valueOf_def)
  show ?thesis
    using applyBinary_error_cascade [OF ev_undefined ev_two err op uns, of plainHelpers noDuration]
      ev_undefined
    by (simp add: undefinedValue_def errorFor_def isEquality_def isComparison_def oneOf_def
                  isTimeFieldType_def)
qed

text \<open>
  Claim C1, as stated, fails.  With an undefined name on the left, \<open>nope = 2\<close>
  yields a value of type \<open>boolean\<close>, not \<open>error\<close>.  And \<open>blob / nope\<close>, with an
  unsupported column on the left, logs two diagnostics of the dispatcher after the one
  of the operand: the division checks for unsupported operands before it cascades.
\<close>

theorem applyBinary_cascade_counterexample:
  "map_sum id dataType
     (fst (applyBinary plainHelpers noDuration flightSpace (idReference 11 ''nope'') ''='' (numberLiteral 12 ''2'')))
     = Inr ''boolean''
   \<and> fst (snd (applyBinary plainHelpers noDuration flightSpace (idReference 13 ''blob'') ''/'' (idReference 11 ''nope'')))
     = [(11, quoted ''nope'' @ '' is not defined''),
        (13, ''Unsupported type not allowed in expression''),
        (13, ''Cannot operate with unsupported type'')]"
  by (simp add: applyBinary_def isEquality_def isComparison_def oneOf_def equality_def divide_def
        withOperands_eval [OF ev_undefined ev_two] withOperands_eval [OF ev_blob ev_undefined]
        equalityOf_def errorCascade_def unsupportError_def undefinedValue_def errorFor_def
        valueOf_def idReference_location)

subsection \<open>Filters and the top property\<close>

lemma run_bindE:
  "run (bindE m f) fs =
     (case run m fs of
        (Inl err, lg, fs1) \<Rightarrow> (Inl err, lg, fs1)
      | (Inr v, lg, fs1) \<Rightarrow> prepend lg (run (f v) fs1))"
  by (induction m arbitrary: fs) (auto simp: prepend_def split: prod.splits sum.splits)

lemma set_having_clause: "havingClause (set_having (new_Filter at els) b) = None"
  by (simp add: set_having_def new_Filter_def)

lemma getFilterLoop_no_clause:
  "getFilterLoop H None els fs checked = (Inr out, lg, fs') \<Longrightarrow>
     length out = length checked + length els"
proof (induction els arbitrary: fs checked lg)
  case Nil
  then show ?case by simp
next
  case (Cons el els)
  then show ?case
    by (auto simp: prepend_def split: prod.splits sum.splits)
qed

text \<open>
  Claim C2 does not hold of the code.  \<open>getFilterList\<close> tests the private field
  \<open>havingClause\<close>, which nothing assigns: the setter \<open>having\<close> stores the mark in
  \<open>elementType\<close>.  So no element is ever rejected.  A filter marked as WHERE keeps
  the aggregate condition \<open>sum(distance) > 100\<close>, and a filter marked as HAVING keeps
  the scalar condition \<open>distance > 100\<close>; neither logs a diagnostic.
\<close>

theorem getFilterList_never_rejects:
  "getFilterList plainHelpers whereSum flightSpace =
     (Inr [\<lparr> fx_code = ''sum(distance) > 100'',
             fx_expression = [Str ''SUM('', Str ''distance'', Str '')'', Str ''>'', Str ''100''],
             fx_expressionType = Aggregate \<rparr>], [], flightSpace)
   \<and> getFilterList plainHelpers havingDistance flightSpace =
     (Inr [\<lparr> fx_code = ''distance > 100'',
             fx_expression = [Str ''distance'', Str ''>'', Str ''100''],
             fx_expressionType = Scalar \<rparr>], [], flightSpace)"
  by (simp add: getFilterList_def whereSum_def havingDistance_def set_having_def new_Filter_def
        filterExpression_def greaterThan_def sumOf_def idReference_def prepend_def
        getExpression_def andThen_def flightSpace_def valueOf_def plainHelpers_def)

text \<open>
  Claim C3 does not hold of the code.  \<open>Top.getBy\<close> logs "top by expression must be
  an aggregate" exactly when the expression is an aggregate: for
  \<open>top: 10 by sum(distance)\<close> the diagnostic is logged, for \<open>top: 10 by distance\<close>
  it is not.
\<close>

theorem Top_getBy_aggregate_logs:
  "getBy plainHelpers topBySum flightSpace =
     (Inr (Some (ByExpr [Str ''SUM('', Str ''distance'', Str '')''])),
      [(30, ''top by expression must be an aggregate'')], flightSpace)
   \<and> getBy plainHelpers topByDistance flightSpace =
     (Inr (Some (ByExpr [Str ''distance''])), [], flightSpace)"
  by (simp add: getBy_def topBySum_def topByDistance_def sumOf_def idReference_def
        getExpression_def andThen_def flightSpace_def valueOf_def plainHelpers_def)

subsection \<open>Circular definitions\<close>





lemma xDecl_fields:
  "defineName xDecl = ''x''" "expr xDecl = selfPlusOne" "fd_location xDecl = 20"
  "exprSrc xDecl = Some ''x + 1''"
  by (simp_all add: xDecl_def)

lemma ev_x:
  "getExpression (new_DefSpace flightSpace xDecl) (idReference 21 ''x'') =
     (Inr circularX, [(21, circularMessage ''x'')], DefSpace flightSpace xDecl True)"
  by (simp add: getExpression_def idReference_def new_DefSpace_def xDecl_fields circularX_def)

lemma ev_one:
  "getExpression fs (numberLiteral 22 ''1'') = (Inr literalOne, [], fs)"
  by (simp add: getExpression_def numberLiteral_def literalOne_def)

lemma ev_selfPlusOne:
  "getExpression (new_DefSpace flightSpace xDecl) selfPlusOne =
     (Inr (cascading ''number'' circularX literalOne), [(21, circularMessage ''x'')],
      DefSpace flightSpace xDecl True)"
  using ev_x ev_one [of "DefSpace flightSpace xDecl True"]
  by (simp add: getExpression_def selfPlusOne_def run_bindE prepend_def)

lemma selfPlusOne_applyBinary:
  "applyBinary plainHelpers noDuration (new_DefSpace flightSpace xDecl)
      (idReference 21 ''x'') ''+'' (numberLiteral 22 ''1'') =
   getExpression (new_DefSpace flightSpace xDecl) selfPlusOne"
  by (simp add: ev_selfPlusOne applyBinary_def isEquality_def isComparison_def oneOf_def
        delta_def withOperands_eval [OF ev_x ev_one] unsupportError_def errorCascade_def
        circularX_def literalOne_def errorFor_def valueOf_def isTimeFieldType_def cascading_def
        maxOfExpressionTypes_pair)


subsection \<open>Limits in an index segment\<close>

lemma prependL_simps [simp]: "prependL lg (v, lg') = (v, lg @ lg')"
  by (simp add: prependL_def)

lemma thenL_Inr:
  "thenL r k = (Inr v, lg) \<Longrightarrow>
     \<exists>u lg1 lg2. r = (Inr u, lg1) \<and> k u = (Inr v, lg2) \<and> lg = lg1 @ lg2"
  by (cases r; cases "fst r") (auto simp: thenL_def prependL_def split: prod.splits)

lemma forEach_Cons_Inr:
  "forEach f (x # xs) s = (Inr s', lg) \<Longrightarrow>
     \<exists>s1 lg1 lg2. f s x = (Inr s1, lg1) \<and> forEach f xs s1 = (Inr s', lg2) \<and> lg = lg1 @ lg2"
  by (auto simp: prependL_def split: prod.splits sum.splits)

lemma IndexExecutor_execute_limit:
  assumes "IndexExecutor_execute H ex0 p = (Inr ex1, lg1)"
  shows "(case p of
            LimitProperty l \<Rightarrow>
              ix_limit ex1 = Some l \<and>
              (\<forall>e. ix_limit ex0 = Some e \<longrightarrow> (lim_location e, tooManyLimits) \<in> set lg1)
          | other \<Rightarrow> ix_limit ex1 = ix_limit ex0)"
proof (cases p)
  case (IndexStatement qp)
  then show ?thesis using assms
    by (auto dest!: thenL_Inr split: option.splits)
qed (use assms in \<open>auto simp: tooManyLimits_def split: prod.splits sum.splits option.splits\<close>)

lemma executeAll_limits:
  "forEach (IndexExecutor_execute H) props ex0 = (Inr ex, lg) \<Longrightarrow>
     ix_limit ex = (if limitsOf props = [] then ix_limit ex0 else Some (last (limitsOf props)))
     \<and> (\<forall>l \<in> set (butlast (pending (ix_limit ex0) @ limitsOf props)).
           (lim_location l, tooManyLimits) \<in> set lg)"
proof (induction props arbitrary: ex0 lg)
  case Nil
  then show ?case by (auto simp: pending_def split: option.splits)
next
  case (Cons p ps)
  from forEach_Cons_Inr [OF Cons.prems]
  obtain ex1 lg1 lg2 where st: "IndexExecutor_execute H ex0 p = (Inr ex1, lg1)"
    and rest: "forEach (IndexExecutor_execute H) ps ex1 = (Inr ex, lg2)"
    and lg: "lg = lg1 @ lg2" by blast
  note ih = Cons.IH [OF rest]
  note one = IndexExecutor_execute_limit [OF st]
  show ?case
  proof (cases "\<exists>l. p = LimitProperty l")
    case True
    then obtain l where p: "p = LimitProperty l" by blast
    have l1: "ix_limit ex1 = Some l" using one p by simp
    have old: "\<forall>e. ix_limit ex0 = Some e \<longrightarrow> (lim_location e, tooManyLimits) \<in> set lg1"
      using one p by simp
    have a: "ix_limit ex = (if limitsOf (p # ps) = [] then ix_limit ex0
                            else Some (last (limitsOf (p # ps))))"
      using ih l1 p by simp
    have b: "\<forall>x \<in> set (butlast (pending (ix_limit ex0) @ limitsOf (p # ps))).
               (lim_location x, tooManyLimits) \<in> set lg"
    proof
      fix x assume x: "x \<in> set (butlast (pending (ix_limit ex0) @ limitsOf (p # ps)))"
      have "pending (ix_limit ex0) @ limitsOf (p # ps) =
              pending (ix_limit ex0) @ (l # limitsOf ps)" using p by simp
      then have "butlast (pending (ix_limit ex0) @ limitsOf (p # ps)) =
              pending (ix_limit ex0) @ butlast (l # limitsOf ps)"
        by (simp add: butlast_append)
      then have "x \<in> set (pending (ix_limit ex0)) \<or> x \<in> set (butlast (pending (ix_limit ex1) @ limitsOf ps))"
        using x l1 by (auto simp: pending_def)
      then show "(lim_location x, tooManyLimits) \<in> set lg"
        using old ih lg by (auto simp: pending_def split: option.splits)
    qed
    show ?thesis using a b by blast
  next
    case False
    then have same: "ix_limit ex1 = ix_limit ex0" using one by (cases p) auto
    have lim: "limitsOf (p # ps) = limitsOf ps" using False by (cases p) auto
    show ?thesis using ih same lim lg by auto
  qed
qed

text \<open>
  Claim C10.  When the properties of an index segment are executed in order by a new
  \<open>IndexExecutor\<close> and at least one of them is a \<open>Limit\<close>, then "Ignored, too
  many limit: statements" is logged against every \<open>Limit\<close> but the last (each is
  the earlier one when the next is executed), and \<open>finalize\<close>, without a segment
  to refine or refining an index segment, returns an index segment whose limit is the
  value of the last \<open>Limit\<close>.  In a reduce executor that holds a limit, a further
  \<open>Limit\<close> is the one that is diagnosed, and the held limit stays.
\<close>

theorem IndexExecutor_last_limit_wins:
  assumes "executeAll (IndexExecutor_execute H) props (new_IndexExecutor inputStruct view) = (Inr ex, lg)"
    and "limitsOf props \<noteq> []"
    and "case frm of None \<Rightarrow> True | Some f \<Rightarrow> seg_type f = Index"
  shows "(\<forall>l \<in> set (butlast (limitsOf props)). (lim_location l, tooManyLimits) \<in> set lg)
       \<and> (\<exists>seg ex'. IndexExecutor_finalize ex frm = (Inr (seg, ex'), [])
              \<and> seg_type seg = Index
              \<and> seg_limit seg = Some (lim_limit (last (limitsOf props))))
       \<and> (truthy (re_limit rex) \<longrightarrow>
            ReduceExecutor_execute H rex (LimitProperty l2) =
              (Inr rex, [(lim_location l2, ''Query operation already limited'')]))"
proof -
  have ea: "forEach (IndexExecutor_execute H) props (new_IndexExecutor inputStruct view) = (Inr ex, lg)"
    using assms(1) by (simp add: executeAll_def)
  have lim: "ix_limit ex = Some (last (limitsOf props))"
    using executeAll_limits [OF ea] assms(2) by simp
  have dg: "\<forall>l \<in> set (butlast (limitsOf props)). (lim_location l, tooManyLimits) \<in> set lg"
    using executeAll_limits [OF ea] by (simp add: new_IndexExecutor_def pending_def)
  have fin: "\<exists>seg ex'. IndexExecutor_finalize ex frm = (Inr (seg, ex'), [])
              \<and> seg_type seg = Index
              \<and> seg_limit seg = Some (lim_limit (last (limitsOf props)))"
    using assms(3) lim
    by (auto simp: IndexExecutor_finalize_def Let_def IndexFieldSpace_getPipeSegment_def
                   newSegment_def
             split: option.splits prod.splits)
  have red: "truthy (re_limit rex) \<longrightarrow>
            ReduceExecutor_execute H rex (LimitProperty l2) =
              (Inr rex, [(lim_location l2, ''Query operation already limited'')])"
    by (simp add: setLimit_def)
  show ?thesis using dg fin red by blast
qed

theorem IndexExecutor_last_limit_wins_witness:
  "executeAll (IndexExecutor_execute plainHelpers) twoLimits (new_IndexExecutor flights flightSpace) =
     (Inr afterTwoLimits, [(61, tooManyLimits)])
   \<and> limitsOf twoLimits \<noteq> []
   \<and> (61, tooManyLimits) \<in> set [(61, tooManyLimits)]
   \<and> (\<exists>seg ex'. IndexExecutor_finalize afterTwoLimits None = (Inr (seg, ex'), [])
          \<and> seg_type seg = Index \<and> seg_limit seg = Some 20)"
proof -
  have h1: "executeAll (IndexExecutor_execute plainHelpers) twoLimits
              (new_IndexExecutor flights flightSpace) = (Inr afterTwoLimits, [(61, tooManyLimits)])"
    by (simp add: executeAll_def twoLimits_def afterTwoLimits_def tooManyLimits_def
                  new_IndexExecutor_def)
  have h2: "limitsOf twoLimits \<noteq> []" by (simp add: twoLimits_def)
  have h3: "case None of None \<Rightarrow> True | Some f \<Rightarrow> seg_type f = Index" by simp
  show ?thesis
    using IndexExecutor_last_limit_wins [OF h1 h2 h3] h1 h2
    by (simp add: twoLimits_def)
qed

subsection \<open>Finalising reduce and project segments\<close>

lemma withNewExtends_Inr:
  "withNewExtends H fx rs segment = (Inr (seg, rs1), lg) \<Longrightarrow>
     seg_type seg = seg_type segment \<and> seg_orderBy seg = seg_orderBy segment
     \<and> seg_by seg = seg_by segment \<and> seg_limit seg = seg_limit segment
     \<and> seg_filterList seg = seg_filterList segment \<and> seg_fields seg = seg_fields segment"
  by (auto simp: withNewExtends_def split: if_splits prod.splits sum.splits)

lemma getPipeSegment_Inr:
  assumes "getPipeSegment H fx rs rf = (Inr (seg, rs1), lg)"
  shows "seg_type seg = segmentType rs \<and> seg_orderBy seg = None \<and> seg_by seg = None
         \<and> seg_limit seg = None \<and> seg_filterList seg = None
         \<and> (\<exists>xs1 flds rs2 lg2. queryFieldDefs (rs\<lparr> exprSpace := xs1 \<rparr>) = (Inr (flds, rs2), lg2)
               \<and> seg_fields seg = mergeQueryFields H (oldFields rf) flds
               \<and> set lg2 \<subseteq> set lg)"
proof -
  from assms have ni: "segmentType rs \<noteq> Index"
    by (auto simp: getPipeSegment_def split: if_splits)
  from assms ni obtain xs1 flds rs2 lg1 lg2 lg3 where
      qf: "queryFieldDefs (rs\<lparr> exprSpace := xs1 \<rparr>) = (Inr (flds, rs2), lg2)"
      and k: "withNewExtends H fx rs2
                    ((newSegment (segmentType rs) (mergeQueryFields H (oldFields rf) flds))
                       \<lparr> seg_extendSource := oldExtends rf \<rparr>) = (Inr (seg, rs1), lg3)"
      and lg: "lg = lg1 @ lg2 @ lg3"
    unfolding getPipeSegment_def
    by (auto dest!: thenL_Inr)
  show ?thesis using withNewExtends_Inr [OF k] qf lg by (auto simp: newSegment_def)
qed

lemma getQuerySegment_Inr:
  assumes "getQuerySegment H fx rs rf = (Inr (seg, rs1), lg)"
  shows "\<exists>lg'. getPipeSegment H fx rs rf = (Inr (seg, rs1), lg') \<and> set lg' \<subseteq> set lg"
  using assms unfolding getQuerySegment_def
  by (auto dest!: thenL_Inr split: if_splits)

lemma refineFrom_Inr:
  assumes "refineFrom H ex frm to = (Inr (seg, ex'), lg)"
    and "seg_orderBy to = None" "seg_by to = None" "seg_limit to = None"
  shows "seg_filterList seg = Some (oldFiltersOf frm @ filters ex)"
    and "seg_limit seg =
           (if truthy (re_limit ex) then re_limit ex
            else (case frm of
                    None \<Rightarrow> None
                  | Some f \<Rightarrow> if seg_type f \<noteq> Index \<and> truthy (seg_limit f)
                              then seg_limit f else None))"
    and "re_order ex = None \<Longrightarrow> frm = Some f \<Longrightarrow> seg_type f \<noteq> Index \<Longrightarrow>
           (case seg_orderBy f of
              Some ob \<Rightarrow> seg_orderBy seg = Some ob
            | None \<Rightarrow> seg_orderBy seg = None \<and> seg_by seg = seg_by f)"
    and "seg_fields seg = seg_fields to" "seg_type seg = seg_type to"
  using assms unfolding refineFrom_def Let_def
  by (auto dest!: thenL_Inr simp: inheritLimit_def inheritOrder_def
           split: if_splits option.splits prod.splits sum.splits Order.splits)

lemma segmentOf_Some:
  "segmentOf r = Some seg \<Longrightarrow> \<exists>ex lg. r = (Inr (seg, ex), lg)"
  by (auto simp: segmentOf_def split: prod.splits sum.splits)









text \<open>
  The limit of a segment that \<open>finalize\<close> of a reduce executor returns is never
  \<open>0\<close>: a limit of \<open>0\<close> is taken for no limit, by \<open>execute\<close> and by
  \<open>refineFrom\<close> alike.
\<close>

lemma finalize_limit_nonzero:
  assumes "ReduceExecutor_finalize H fx ex fromSeg = (Inr (seg, ex'), lg)"
  shows "seg_limit seg \<noteq> Some 0"
proof (cases "case fromSeg of None \<Rightarrow> False | Some f \<Rightarrow> seg_type f \<noteq> Reduce")
  case True
  then show ?thesis using assms
    by (auto simp: ReduceExecutor_finalize_def finalizeAs_def ErrorFactory_reduceSegment_def
                   newSegment_def split: option.splits)
next
  case False
  with assms obtain seg0 rs1 lg1 lg2 where
      gq: "getQuerySegment H fx (resultFS ex) fromSeg = (Inr (seg0, rs1), lg1)"
      and rf: "refineFrom H (ex\<lparr> resultFS := rs1 \<rparr>) fromSeg seg0 = (Inr (seg, ex'), lg2)"
    unfolding ReduceExecutor_finalize_def finalizeAs_def Let_def
    by (auto dest!: thenL_Inr split: option.splits if_splits)
  from getQuerySegment_Inr [OF gq] obtain lg' where
      gp: "getPipeSegment H fx (resultFS ex) fromSeg = (Inr (seg0, rs1), lg')" by blast
  from getPipeSegment_Inr [OF gp]
  have fresh: "seg_orderBy seg0 = None" "seg_by seg0 = None" "seg_limit seg0 = None" by auto
  show ?thesis
    using refineFrom_Inr(2) [OF rf fresh]
    by (auto simp: truthy_def split: option.splits if_splits)
qed

text \<open>
  Claim C8.  Let a \<open>ReduceExecutor\<close> finalize against an existing reduce segment
  (whose limit, if any, is not \<open>0\<close>, as for every segment that this code produced),
  and let \<open>finalize\<close> return.  When the executor got no new ordering, the result has
  the \<open>orderBy\<close> of the existing segment, or, if that has none, its \<open>by\<close>; when
  the executor got no new limit, the result has the limit of the existing segment;
  and the \<open>filterList\<close> of the result is the filters of the existing segment followed
  by the filters added to the executor.
\<close>

theorem refine_inherits:
  assumes fin: "ReduceExecutor_finalize H fx ex (Some frm) = (Inr (seg, ex'), lg)"
    and red: "seg_type frm = Reduce"
    and nz: "seg_limit frm \<noteq> Some 0"
  shows "(re_order ex = None \<longrightarrow>
            (case seg_orderBy frm of
               Some ob \<Rightarrow> seg_orderBy seg = Some ob
             | None \<Rightarrow> seg_orderBy seg = None \<and> seg_by seg = seg_by frm))
       \<and> (\<not> truthy (re_limit ex) \<longrightarrow> seg_limit seg = seg_limit frm)
       \<and> seg_filterList seg = Some (oldFiltersOf (Some frm) @ filters ex)"
proof -
  from fin red obtain seg0 rs1 lg1 lg2 where
      gq: "getQuerySegment H fx (resultFS ex) (Some frm) = (Inr (seg0, rs1), lg1)"
      and rf: "refineFrom H (ex\<lparr> resultFS := rs1 \<rparr>) (Some frm) seg0 = (Inr (seg, ex'), lg2)"
    unfolding ReduceExecutor_finalize_def finalizeAs_def Let_def
    by (auto dest!: thenL_Inr)
  from getQuerySegment_Inr [OF gq] obtain lg' where
      gp: "getPipeSegment H fx (resultFS ex) (Some frm) = (Inr (seg0, rs1), lg')" by blast
  from getPipeSegment_Inr [OF gp]
  have fresh: "seg_orderBy seg0 = None" "seg_by seg0 = None" "seg_limit seg0 = None" by auto
  have ni: "seg_type frm \<noteq> Index" using red by simp
  have a: "seg_filterList seg = Some (oldFiltersOf (Some frm) @ filters ex)"
    using refineFrom_Inr(1) [OF rf fresh] by simp
  have b: "\<not> truthy (re_limit ex) \<longrightarrow> seg_limit seg = seg_limit frm"
    using refineFrom_Inr(2) [OF rf fresh] ni nz by (auto simp: truthy_def)
  have c: "re_order ex = None \<longrightarrow>
            (case seg_orderBy frm of
               Some ob \<Rightarrow> seg_orderBy seg = Some ob
             | None \<Rightarrow> seg_orderBy seg = None \<and> seg_by seg = seg_by frm)"
    using refineFrom_Inr(3) [OF rf fresh _ refl ni] by simp
  show ?thesis using a b c by blast
qed

theorem refine_inherits_witness:
  "segmentOf (ReduceExecutor_finalize plainHelpers noFixup refiningExecutor (Some existing)) =
     Some (existing\<lparr> seg_filterList := Some [shortHaul, longHaul] \<rparr>)
   \<and> seg_type existing = Reduce \<and> seg_limit existing \<noteq> Some 0
   \<and> re_order refiningExecutor = None \<and> \<not> truthy (re_limit refiningExecutor)
   \<and> seg_orderBy (existing\<lparr> seg_filterList := Some [shortHaul, longHaul] \<rparr>) = seg_orderBy existing
   \<and> seg_limit (existing\<lparr> seg_filterList := Some [shortHaul, longHaul] \<rparr>) = seg_limit existing
   \<and> seg_filterList (existing\<lparr> seg_filterList := Some [shortHaul, longHaul] \<rparr>) =
       Some (oldFiltersOf (Some existing) @ filters refiningExecutor)"
proof -
  have h: "segmentOf (ReduceExecutor_finalize plainHelpers noFixup refiningExecutor (Some existing)) =
     Some (existing\<lparr> seg_filterList := Some [shortHaul, longHaul] \<rparr>)"
    by code_simp
  then obtain ex' lg where fin:
    "ReduceExecutor_finalize plainHelpers noFixup refiningExecutor (Some existing) =
       (Inr (existing\<lparr> seg_filterList := Some [shortHaul, longHaul] \<rparr>, ex'), lg)"
    using segmentOf_Some by blast
  have red: "seg_type existing = Reduce" by (simp add: existing_def newSegment_def)
  have nz: "seg_limit existing \<noteq> Some 0" by (simp add: existing_def)
  have no: "re_order refiningExecutor = None" "\<not> truthy (re_limit refiningExecutor)"
    by (simp_all add: refiningExecutor_def new_ReduceExecutor_def truthy_def)
  show ?thesis
    using refine_inherits [OF fin red nz] h red nz no
    by (simp add: existing_def)
qed




end
